theory Spec2Isabelle
  imports Complex_Main
begin

section \<open>Data model: report tables\<close>

text \<open>
  Column names of the report tables. The source names them by (mostly Cyrillic) strings;
  each constructor stands for one of these strings, transliterated:
  \<^item> trends: \<open>Mesyats\<close> (month, a date), \<open>God\<close> (year), \<open>Mesyats_nomer\<close> (month number),
    \<open>Prodazhi\<close> (sales), \<open>Vyruchka\<close> (revenue), \<open>Tovary\<close> (products),
    \<open>Tovary_s_prodazhami\<close> (products with sales), \<open>Brendy\<close> (brands),
    \<open>Brendy_s_prodazhami\<close>, \<open>Prodavtsy\<close> (sellers), \<open>Prodavtsy_s_prodazhami\<close>,
    \<open>Vyruchka_na_tovar\<close> (revenue per product), \<open>Sredniy_chek\<close> (average check);
  \<^item> queries: \<open>Klyuchevoe_slovo\<close> (keyword), \<open>Chastota_WB\<close> (frequency),
    \<open>Tovarov_v_zaprose\<close> (products in query), \<open>Koeffitsient\<close> (the derived
    demand/supply coefficient column);
  \<^item> price: \<open>Ot\<close> (from), \<open>Do\<close> (to);
  \<^item> days: \<open>Data\<close> (date), \<open>Ostatok\<close> (stock);
  \<^item> products: \<open>SKU\<close>, \<open>Final_price\<close>, \<open>Category_position_avg\<close>, \<open>Search_cpm_avg\<close>,
    \<open>Search_words_in_ads\<close>;
  \<^item> \<open>Other s\<close>: any other column.
\<close>

datatype col =
    Mesyats | God | Mesyats_nomer | Prodazhi | Vyruchka | Tovary | Tovary_s_prodazhami
  | Brendy | Brendy_s_prodazhami | Prodavtsy | Prodavtsy_s_prodazhami | Vyruchka_na_tovar
  | Sredniy_chek
  | Klyuchevoe_slovo | Chastota_WB | Tovarov_v_zaprose | Koeffitsient
  | Ot | Do | Data | Ostatok
  | SKU | Final_price | Category_position_avg | Search_cpm_avg | Search_words_in_ads
  | Other string

text \<open>
  A float is a real number or NaN (\<open>None\<close>); rounding of floating-point arithmetic is
  not modelled. A timestamp is a calendar date (year, month, day) at midnight, or NaT
  (\<open>None\<close>). A column has one of three dtypes.
\<close>

type_synonym pyfloat = "real option"

type_synonym timestamp = "int \<times> int \<times> int"

datatype column =
    NumCol "pyfloat list"
  | DateCol "timestamp option list"
  | ObjCol "string option list"

record dataframe =
  nrows :: nat
  cols :: "col \<rightharpoonup> column"

text \<open>Exceptions of the source, as values.\<close>

datatype exn = KeyError | AttributeError | TypeError | ValueError | NameError
  | UnboundLocalError

definition andthen :: "exn + 'a \<Rightarrow> ('a \<Rightarrow> exn + 'b) \<Rightarrow> exn + 'b" where
  "andthen m f = (case m of Inl e \<Rightarrow> Inl e | Inr x \<Rightarrow> f x)"

subsection \<open>Float comparisons (false on NaN)\<close>

definition fge :: "pyfloat \<Rightarrow> real \<Rightarrow> bool" where
  "fge a t = (case a of None \<Rightarrow> False | Some x \<Rightarrow> x \<ge> t)"

definition fgt :: "pyfloat \<Rightarrow> real \<Rightarrow> bool" where
  "fgt a t = (case a of None \<Rightarrow> False | Some x \<Rightarrow> x > t)"

definition flt :: "pyfloat \<Rightarrow> real \<Rightarrow> bool" where
  "flt a t = (case a of None \<Rightarrow> False | Some x \<Rightarrow> x < t)"

definition fle :: "pyfloat \<Rightarrow> real \<Rightarrow> bool" where
  "fle a t = (case a of None \<Rightarrow> False | Some x \<Rightarrow> x \<le> t)"

definition feq :: "pyfloat \<Rightarrow> real \<Rightarrow> bool" where
  "feq a t = (case a of None \<Rightarrow> False | Some x \<Rightarrow> x = t)"

text \<open>Comparison of two floats, \<open>a <= b\<close> and \<open>a > b\<close>: false when either is NaN.\<close>

definition fle2 :: "pyfloat \<Rightarrow> pyfloat \<Rightarrow> bool" where
  "fle2 a b = (case b of None \<Rightarrow> False | Some y \<Rightarrow> fle a y)"

definition fgt2 :: "pyfloat \<Rightarrow> pyfloat \<Rightarrow> bool" where
  "fgt2 a b = (case b of None \<Rightarrow> False | Some y \<Rightarrow> fgt a y)"

definition flt2 :: "pyfloat \<Rightarrow> pyfloat \<Rightarrow> bool" where
  "flt2 a b = (case b of None \<Rightarrow> False | Some y \<Rightarrow> flt a y)"

definition fge2 :: "pyfloat \<Rightarrow> pyfloat \<Rightarrow> bool" where
  "fge2 a b = (case b of None \<Rightarrow> False | Some y \<Rightarrow> fge a y)"

section \<open>Configuration (config.py)\<close>

datatype rating = excellent | good | average | poor

text \<open>\<open>ADS_THRESHOLDS\<close>, \<open>TREND_THRESHOLDS\<close> and \<open>TOTAL_SCORE_RANGES\<close>; the last is a
  dict, iterated in insertion order.\<close>

definition ADS_THRESHOLDS :: "rating \<Rightarrow> real" where
  "ADS_THRESHOLDS r = (case r of excellent \<Rightarrow> 4 | good \<Rightarrow> 3 | average \<Rightarrow> 2 | poor \<Rightarrow> 1)"

datatype trend_level = t_excellent | t_good | t_stable | t_poor

definition TREND_THRESHOLDS :: "trend_level \<Rightarrow> real" where
  "TREND_THRESHOLDS r =
     (case r of t_excellent \<Rightarrow> 10 | t_good \<Rightarrow> 0 | t_stable \<Rightarrow> - 5 | t_poor \<Rightarrow> - 15)"

definition TOTAL_SCORE_RANGES :: "(rating \<times> int \<times> int) list" where
  "TOTAL_SCORE_RANGES = [(excellent, 16, 20), (good, 11, 15), (average, 6, 10), (poor, 1, 5)]"

section \<open>Scoring engine: threshold functions (scoring\_engine.py)\<close>

text \<open>\<open>_get_ratio_score\<close>: the score of a price-to-CPM ratio.\<close>

definition get_ratio_score :: "pyfloat \<Rightarrow> int" where
  "get_ratio_score ratio =
     (if fge ratio (ADS_THRESHOLDS excellent) then 4
      else if fge ratio (ADS_THRESHOLDS good) then 3
      else if fge ratio (ADS_THRESHOLDS average) then 2
      else if fge ratio (ADS_THRESHOLDS poor) then 1
      else 0)"

text \<open>The bucket chain of \<open>_calculate_query_score\<close> (its lines 199 to 206), on the
  percentage of effective queries.\<close>

definition query_efficiency_score :: "pyfloat \<Rightarrow> int" where
  "query_efficiency_score efficiency_ratio =
     (if fge efficiency_ratio 20 then 4
      else if fge efficiency_ratio 10 then 3
      else if fge efficiency_ratio 5 then 2
      else 1)"

text \<open>The bucket chain of \<open>_calculate_yoy_score\<close> (its lines 145 to 156), on the average
  year-over-year change in percent.\<close>

definition yoy_change_score :: "pyfloat \<Rightarrow> int" where
  "yoy_change_score avg_yoy_change =
     (if fge avg_yoy_change (TREND_THRESHOLDS t_excellent) then 4
      else if fge avg_yoy_change (TREND_THRESHOLDS t_good) then 3
      else if fge avg_yoy_change (TREND_THRESHOLDS t_stable) then 2
      else 1)"

text \<open>\<open>_get_niche_rating\<close>: the first range of \<open>TOTAL_SCORE_RANGES\<close> that holds the
  score, \<open>poor\<close> when none does.\<close>

fun first_range :: "(rating \<times> int \<times> int) list \<Rightarrow> int \<Rightarrow> rating" where
  "first_range [] total_score = poor"
| "first_range ((r, min_score, max_score) # rest) total_score =
     (if min_score \<le> total_score \<and> total_score \<le> max_score then r
      else first_range rest total_score)"

definition get_niche_rating :: "int \<Rightarrow> rating" where
  "get_niche_rating total_score = first_range TOTAL_SCORE_RANGES total_score"

text \<open>The ranges of the table that hold a score.\<close>

definition ranges_holding :: "int \<Rightarrow> (rating \<times> int \<times> int) list" where
  "ranges_holding s = filter (\<lambda>(r, lo, hi). lo \<le> s \<and> s \<le> hi) TOTAL_SCORE_RANGES"

section \<open>Table operations (the pandas operations the source uses)\<close>

text \<open>
  Modelling conventions. Row labels are row positions (the index is unique). Every column
  of a table has \<open>nrows\<close> cells. Distinct keys of the loaded-data mapping hold distinct
  table objects. An operation that compares with a number or does arithmetic with one
  reads a column through \<open>numeric\<close>: on a datetime or object column the model raises
  \<open>TypeError\<close>, as pandas does for ordering and arithmetic between such values and
  numbers. The operations that pandas accepts on every dtype (\<open>idxmax\<close>, \<open>min\<close>, \<open>max\<close>,
  \<open>sort_values\<close>, the comparison of two columns of one dtype) are modelled on every
  dtype: dates are ordered by their day number, strings by their code points, missing
  values compare false and are skipped. The comparison of two columns of different dtypes
  is modelled as a raised \<open>TypeError\<close>. Descriptive entries of the analysis dicts that
  only format or round numbers are left out of the analysis records.
\<close>

definition getcol :: "dataframe \<Rightarrow> col \<Rightarrow> exn + column" where
  "getcol df c = (case cols df c of None \<Rightarrow> Inl KeyError | Some x \<Rightarrow> Inr x)"

fun numeric :: "column \<Rightarrow> exn + pyfloat list" where
  "numeric (NumCol xs) = Inr xs"
| "numeric (DateCol ds) = Inl TypeError"
| "numeric (ObjCol ss) = Inl TypeError"

text \<open>The \<open>.dt\<close> accessor: only on a datetime column.\<close>

fun dt :: "column \<Rightarrow> exn + timestamp option list" where
  "dt (DateCol ds) = Inr ds"
| "dt (NumCol xs) = Inl AttributeError"
| "dt (ObjCol ss) = Inl AttributeError"

definition dt_year :: "timestamp option list \<Rightarrow> column" where
  "dt_year ds = NumCol (map (map_option (\<lambda>(y, m, d). real_of_int y)) ds)"

definition dt_month :: "timestamp option list \<Rightarrow> column" where
  "dt_month ds = NumCol (map (map_option (\<lambda>(y, m, d). real_of_int m)) ds)"

text \<open>Column assignment \<open>df[c] = v\<close>, in place.\<close>

definition setcol :: "dataframe \<Rightarrow> col \<Rightarrow> column \<Rightarrow> dataframe" where
  "setcol df c v = df\<lparr>cols := (cols df)(c \<mapsto> v)\<rparr>"

text \<open>Row selection by a boolean mask, \<open>df[keep]\<close>: a new table.\<close>

definition select :: "bool list \<Rightarrow> 'a list \<Rightarrow> 'a list" where
  "select keep xs = map snd (filter fst (zip keep xs))"

fun col_select :: "bool list \<Rightarrow> column \<Rightarrow> column" where
  "col_select keep (NumCol xs) = NumCol (select keep xs)"
| "col_select keep (DateCol ds) = DateCol (select keep ds)"
| "col_select keep (ObjCol ss) = ObjCol (select keep ss)"

definition df_select :: "bool list \<Rightarrow> dataframe \<Rightarrow> dataframe" where
  "df_select keep df =
     \<lparr>nrows = length (filter id keep), cols = (\<lambda>c. map_option (col_select keep) (cols df c))\<rparr>"

text \<open>Reductions, skipping NaN as pandas does.\<close>

definition present :: "'a option list \<Rightarrow> 'a list" where
  "present xs = List.map_filter id xs"

definition mean :: "real list \<Rightarrow> real" where
  "mean vs = sum_list vs / real (length vs)"

definition nanmean :: "pyfloat list \<Rightarrow> pyfloat" where
  "nanmean xs = (let vs = present xs in if vs = [] then None else Some (mean vs))"

text \<open>\<open>np.mean\<close> of a non-empty list of floats: NaN if any is.\<close>

definition np_mean :: "pyfloat list \<Rightarrow> pyfloat" where
  "np_mean xs = (if None \<in> set xs then None else Some (mean (present xs)))"

definition median :: "real list \<Rightarrow> real" where
  "median vs =
     (let s = sort vs; n = length s
      in if odd n then s ! (n div 2) else (s ! (n div 2 - 1) + s ! (n div 2)) / 2)"

definition nanmedian :: "pyfloat list \<Rightarrow> pyfloat" where
  "nanmedian xs = (let vs = present xs in if vs = [] then None else Some (median vs))"

text \<open>Sample standard deviation (\<open>ddof = 1\<close>): NaN on fewer than two values. The
  square root is the one of the real numbers.\<close>

definition nanstd :: "pyfloat list \<Rightarrow> pyfloat" where
  "nanstd xs =
     (let vs = present xs; n = length vs
      in if n < 2 then None
         else Some (sqrt (sum_list (map (\<lambda>x. (x - mean vs) ^ 2) vs) / real (n - 1))))"

definition maximum :: "real list \<Rightarrow> real" where
  "maximum vs = fold max vs (hd vs)"

text \<open>\<open>Series.idxmax\<close>: the first position of the largest value; it fails (by raising, or
  by returning NaN that the following label lookup rejects) when every value is NaN.\<close>

definition idxmax :: "pyfloat list \<Rightarrow> exn + nat" where
  "idxmax xs =
     (let vs = present xs
      in if vs = [] then Inl ValueError
         else Inr (length (takeWhile (\<lambda>x. x \<noteq> Some (maximum vs)) xs)))"

text \<open>\<open>Series.unique\<close> without its NaN: values in order of first appearance.\<close>

definition unique :: "pyfloat list \<Rightarrow> real list" where
  "unique xs = rev (remdups (rev (present xs)))"

text \<open>The group keys of \<open>groupby\<close>: the distinct values, ascending, NaN dropped.\<close>

definition group_keys :: "pyfloat list \<Rightarrow> real list" where
  "group_keys ks = sort (remdups (present ks))"

text \<open>\<open>groupby(key)[col].mean()\<close>: one mean per group key, in key order.\<close>

definition group_means :: "pyfloat list \<Rightarrow> pyfloat list \<Rightarrow> pyfloat list" where
  "group_means ks vs = map (\<lambda>k. nanmean (select (map (\<lambda>y. feq y k) ks) vs)) (group_keys ks)"

definition count_where :: "('a \<Rightarrow> bool) \<Rightarrow> 'a list \<Rightarrow> nat" where
  "count_where p xs = length (filter p xs)"

subsection \<open>Orders on dates and strings\<close>

text \<open>Days from the civil date, up to a constant: only differences and comparisons are
  used.\<close>

definition toordinal :: "timestamp \<Rightarrow> int" where
  "toordinal t =
     (case t of (y, m, d) \<Rightarrow>
        (let y' = (if m \<le> 2 then y - 1 else y);
             era = y' div 400;
             yoe = y' - era * 400;
             mp = (m + 9) mod 12;
             doy = (153 * mp + 2) div 5 + d - 1;
             doe = yoe * 365 + yoe div 4 - yoe div 100 + doy
         in era * 146097 + doe))"

definition ts_less :: "timestamp \<Rightarrow> timestamp \<Rightarrow> bool" where
  "ts_less a b = (toordinal a < toordinal b)"

definition num_less :: "real \<Rightarrow> real \<Rightarrow> bool" where
  "num_less a b = (a < b)"

fun str_less :: "string \<Rightarrow> string \<Rightarrow> bool" where
  "str_less [] [] = False"
| "str_less [] (y # ys) = True"
| "str_less (x # xs) [] = False"
| "str_less (x # xs) (y # ys) =
     ((of_char x :: nat) < of_char y \<or> (x = y \<and> str_less xs ys))"

text \<open>\<open>a > b\<close> and \<open>a >= b\<close> on cells of one dtype, given its strict order: false when
  either cell is missing.\<close>

definition gt_by :: "('a \<Rightarrow> 'a \<Rightarrow> bool) \<Rightarrow> 'a option \<Rightarrow> 'a option \<Rightarrow> bool" where
  "gt_by lt a b = (case (a, b) of (Some x, Some y) \<Rightarrow> lt y x | _ \<Rightarrow> False)"

definition ge_by :: "('a \<Rightarrow> 'a \<Rightarrow> bool) \<Rightarrow> 'a option \<Rightarrow> 'a option \<Rightarrow> bool" where
  "ge_by lt a b = (case (a, b) of (Some x, Some y) \<Rightarrow> \<not> lt x y | _ \<Rightarrow> False)"

definition maximum_by :: "('a \<Rightarrow> 'a \<Rightarrow> bool) \<Rightarrow> 'a list \<Rightarrow> 'a" where
  "maximum_by lt vs = fold (\<lambda>x m. if lt m x then x else m) vs (hd vs)"

definition minimum_by :: "('a \<Rightarrow> 'a \<Rightarrow> bool) \<Rightarrow> 'a list \<Rightarrow> 'a" where
  "minimum_by lt vs = fold (\<lambda>x m. if lt x m then x else m) vs (hd vs)"

text \<open>\<open>Series.idxmax\<close> on a column of any dtype.\<close>

definition idxmax_by :: "('a \<Rightarrow> 'a \<Rightarrow> bool) \<Rightarrow> 'a option list \<Rightarrow> exn + nat" where
  "idxmax_by lt xs =
     (let vs = present xs
      in if vs = [] then Inl ValueError
         else Inr (length (takeWhile (\<lambda>x. x \<noteq> Some (maximum_by lt vs)) xs)))"

fun col_idxmax :: "column \<Rightarrow> exn + nat" where
  "col_idxmax (NumCol xs) = idxmax xs"
| "col_idxmax (DateCol ds) = idxmax_by ts_less ds"
| "col_idxmax (ObjCol ss) = idxmax_by str_less ss"

text \<open>The values of a column for a median and the comparison with it, which pandas
  computes on numbers and on dates alike: a date stands as its day number, which keeps
  the order and the midpoints. The median of a text column raises.\<close>

fun ordered :: "column \<Rightarrow> exn + pyfloat list" where
  "ordered (NumCol xs) = Inr xs"
| "ordered (DateCol ds) = Inr (map (map_option (\<lambda>t. real_of_int (toordinal t))) ds)"
| "ordered (ObjCol ss) = Inl TypeError"

section \<open>Scoring engine: the five modules (scoring\_engine.py)\<close>

text \<open>The marker stored under \<open>"error"\<close> in a module's analysis dict: the message for a
  missing column, the message of the ads module for empty top groups, or the text of a
  caught exception.\<close>

datatype marker = Missing_column | Too_few_top | Raised exn

subsection \<open>Trend module\<close>

datatype metric_key =
  brands_with_sales | brands_total | products_with_sales | products_total | avg_check

definition metrics :: "(metric_key \<times> col) list" where
  "metrics = [(brands_with_sales, Brendy_s_prodazhami), (brands_total, Brendy),
     (products_with_sales, Tovary_s_prodazhami), (products_total, Tovary),
     (avg_check, Sredniy_chek)]"

datatype yoy_info =
    Insufficient_data
  | No_changes
  | Yoy_change pyfloat
  | Yoy_error exn

record trend_analysis =
  t_peak_months :: "(real \<times> pyfloat) list"
  t_yoy_changes :: "(metric_key \<times> yoy_info) list"
  t_score_breakdown :: "(metric_key \<times> int) list"
  t_total_score :: int
  t_error :: "exn option"

text \<open>Lines 77 and 78: the two helper columns are assigned on the input table itself.\<close>

definition trend_add_columns :: "dataframe \<Rightarrow> exn + dataframe" where
  "trend_add_columns df =
     andthen (getcol df Mesyats) (\<lambda>c. andthen (dt c) (\<lambda>ds.
       Inr (setcol (setcol df God (dt_year ds)) Mesyats_nomer (dt_month ds))))"

text \<open>Lines 81 to 86: the peak month of one year, then of every year. The sales column
  may have any dtype; the lookup fails only when all sales of the year are missing.\<close>

definition year_peak :: "dataframe \<Rightarrow> pyfloat list \<Rightarrow> real \<Rightarrow> exn + pyfloat" where
  "year_peak df ys year =
     (let year_data = df_select (map (\<lambda>y. feq y year) ys) df
      in andthen (getcol year_data Prodazhi) (\<lambda>sales.
         andthen (col_idxmax sales) (\<lambda>i.
         andthen (getcol year_data Mesyats_nomer) (\<lambda>mc. andthen (numeric mc) (\<lambda>ms.
           if i < length ms then Inr (ms ! i) else Inl KeyError)))))"

fun peak_loop :: "dataframe \<Rightarrow> pyfloat list \<Rightarrow> real list \<Rightarrow> exn + (real \<times> pyfloat) list" where
  "peak_loop df ys [] = Inr []"
| "peak_loop df ys (year # rest) =
     andthen (year_peak df ys year) (\<lambda>m.
       andthen (peak_loop df ys rest) (\<lambda>ps. Inr ((year, m) # ps)))"

definition peak_months :: "dataframe \<Rightarrow> exn + (real \<times> pyfloat) list" where
  "peak_months df =
     andthen (getcol df God) (\<lambda>g. andthen (numeric g) (\<lambda>ys.
       if cols df Prodazhi = None then Inr [] else peak_loop df ys (unique ys)))"

text \<open>Lines 130 to 136: the percentage changes between consecutive yearly means, kept
  only where the previous mean is positive.\<close>

definition change_percent :: "pyfloat \<Rightarrow> pyfloat \<Rightarrow> pyfloat" where
  "change_percent prev_value curr_value =
     (case (prev_value, curr_value) of
        (Some p, Some c) \<Rightarrow> Some (((c - p) / p) * 100)
      | _ \<Rightarrow> None)"

fun yoy_changes :: "pyfloat list \<Rightarrow> pyfloat list" where
  "yoy_changes (prev_value # curr_value # rest) =
     (if fgt prev_value 0 then [change_percent prev_value curr_value] else [])
       @ yoy_changes (curr_value # rest)"
| "yoy_changes [x] = []"
| "yoy_changes [] = []"

text \<open>
  \<open>_calculate_yoy_score\<close>. Its only caller has just assigned \<open>God\<close> as a numeric column;
  grouping by a \<open>God\<close> column of another dtype is not reachable and is modelled as a raised
  \<open>TypeError\<close>. The yearly mean of a datetime column exists, so the length test comes
  first there; the later comparison with \<open>0\<close> raises. The mean of an object column raises.
\<close>

definition calculate_yoy_score :: "dataframe \<Rightarrow> col \<Rightarrow> int \<times> yoy_info" where
  "calculate_yoy_score df metric_col =
     (case andthen (getcol df God) (\<lambda>g. andthen (numeric g) (\<lambda>ys.
             andthen (getcol df metric_col) (\<lambda>c. Inr (ys, c)))) of
        Inl e \<Rightarrow> (1, Yoy_error e)
      | Inr (ys, c) \<Rightarrow>
          (case c of
             ObjCol ss \<Rightarrow> (1, Yoy_error TypeError)
           | DateCol ds \<Rightarrow>
               if length (group_keys ys) < 2 then (2, Insufficient_data)
               else (1, Yoy_error TypeError)
           | NumCol vs \<Rightarrow>
               (let yearly_data = group_means ys vs
                in if length yearly_data < 2 then (2, Insufficient_data)
                   else let changes = yoy_changes yearly_data
                        in if changes = [] then (2, No_changes)
                           else let avg_yoy_change = np_mean changes
                                in (yoy_change_score avg_yoy_change,
                                    Yoy_change avg_yoy_change))))"

definition trend_initial :: trend_analysis where
  "trend_initial = \<lparr>t_peak_months = [], t_yoy_changes = [], t_score_breakdown = [],
     t_total_score = 0, t_error = None\<rparr>"

text \<open>\<open>int(np.mean(scores))\<close> of a non-empty list of small non-negative integers.\<close>

definition int_mean :: "int list \<Rightarrow> int" where
  "int_mean scores = \<lfloor>real_of_int (sum_list scores) / real (length scores)\<rfloor>"

text \<open>\<open>_calculate_trend_score\<close>: the pair it returns, and the input table as it leaves it.\<close>

definition calculate_trend_score :: "dataframe \<Rightarrow> (int \<times> trend_analysis) \<times> dataframe" where
  "calculate_trend_score df =
     (case trend_add_columns df of
        Inl e \<Rightarrow> ((0, trend_initial\<lparr>t_error := Some e\<rparr>), df)
      | Inr df1 \<Rightarrow>
          (case peak_months df1 of
             Inl e \<Rightarrow> ((0, trend_initial\<lparr>t_error := Some e\<rparr>), df1)
           | Inr pm \<Rightarrow>
               (let found = filter (\<lambda>(k, c). cols df1 c \<noteq> None) metrics;
                    res = map (\<lambda>(k, c). (k, calculate_yoy_score df1 c)) found;
                    scores = map (\<lambda>(k, r). fst r) res;
                    final_score = (if scores = [] then 0 else int_mean scores)
                in ((final_score,
                     \<lparr>t_peak_months = pm,
                      t_yoy_changes = map (\<lambda>(k, r). (k, snd r)) res,
                      t_score_breakdown = map (\<lambda>(k, r). (k, fst r)) res,
                      t_total_score = final_score, t_error = None\<rparr>), df1))))"

subsection \<open>Query module\<close>

record query_analysis =
  q_total_queries :: nat
  q_effective_queries :: nat
  q_efficiency_ratio :: pyfloat
  q_score :: int
  q_error :: "marker option"

text \<open>
  \<open>_calculate_query_score\<close>. The top-10 listing selects the keyword, frequency and
  products columns and raises \<open>KeyError\<close> when one is absent; on an empty table
  \<open>efficiency_ratio\<close> was never assigned, and reading it raises.
\<close>

definition calculate_query_score :: "dataframe \<Rightarrow> (int \<times> query_analysis) \<times> dataframe" where
  "calculate_query_score df =
     (let analysis = \<lparr>q_total_queries = nrows df, q_effective_queries = 0,
            q_efficiency_ratio = Some 0, q_score = 0, q_error = None\<rparr>
      in case cols df Koeffitsient of
           None \<Rightarrow> ((0, analysis\<lparr>q_error := Some Missing_column\<rparr>), df)
         | Some c \<Rightarrow>
             (case numeric c of
                Inl e \<Rightarrow> ((0, analysis\<lparr>q_error := Some (Raised e)\<rparr>), df)
              | Inr ks \<Rightarrow>
                  (let effective_queries = count_where (\<lambda>k. fge k 2) ks;
                       efficiency_ratio =
                         Some ((real effective_queries / real (nrows df)) * 100);
                       a1 = analysis\<lparr>q_effective_queries := effective_queries\<rparr>;
                       a2 = (if nrows df > 0 then a1\<lparr>q_efficiency_ratio := efficiency_ratio\<rparr>
                             else a1)
                   in if cols df Klyuchevoe_slovo = None \<or> cols df Chastota_WB = None
                         \<or> cols df Tovarov_v_zaprose = None
                      then ((0, a2\<lparr>q_error := Some (Raised KeyError)\<rparr>), df)
                      else if nrows df = 0
                      then ((0, a2\<lparr>q_error := Some (Raised UnboundLocalError)\<rparr>), df)
                      else (let score = query_efficiency_score efficiency_ratio
                            in ((score, a2\<lparr>q_score := score\<rparr>), df)))))"

subsection \<open>Price module\<close>

record price_analysis =
  p_best_segment :: "nat option"
  p_low_competition :: nat
  p_score :: int
  p_error :: "marker option"

text \<open>Lines 231 to 252: the best segment (a row position) of a revenue column of any
  dtype, and the listing of all segments, which read the columns \<open>Ot\<close> and \<open>Do\<close>.\<close>

definition price_best_segment :: "dataframe \<Rightarrow> column \<Rightarrow> exn + nat" where
  "price_best_segment df c =
     andthen (col_idxmax c) (\<lambda>i. andthen (getcol df Ot) (\<lambda>a. andthen (getcol df Do) (\<lambda>b.
       Inr i)))"

text \<open>Lines 255 to 262: the number of segments above the median revenue per product
  and, when the sellers column exists, below the median number of sellers.\<close>

definition low_competition_segments :: "dataframe \<Rightarrow> pyfloat list \<Rightarrow> exn + nat" where
  "low_competition_segments df rs =
     (let median_revenue = nanmedian rs;
          above = map (\<lambda>r. fgt2 r median_revenue) rs
      in case cols df Prodavtsy of
           None \<Rightarrow> Inr (count_where id above)
         | Some sc \<Rightarrow>
             andthen (ordered sc) (\<lambda>ss.
               Inr (count_where id
                      (map (\<lambda>(a, s). a \<and> flt2 s (nanmedian ss)) (zip above ss)))))"

definition price_count_score :: "nat \<Rightarrow> int" where
  "price_count_score n = (if n \<ge> 3 then 4 else if n \<ge> 2 then 3 else if n \<ge> 1 then 2 else 1)"

definition price_initial :: price_analysis where
  "price_initial = \<lparr>p_best_segment = None, p_low_competition = 0, p_score = 0,
     p_error = None\<rparr>"

definition calculate_price_score :: "dataframe \<Rightarrow> (int \<times> price_analysis) \<times> dataframe" where
  "calculate_price_score df =
     (case cols df Vyruchka_na_tovar of
        None \<Rightarrow> ((0, price_initial\<lparr>p_error := Some Missing_column\<rparr>), df)
      | Some c \<Rightarrow>
          (case price_best_segment df c of
             Inl e \<Rightarrow> ((0, price_initial\<lparr>p_error := Some (Raised e)\<rparr>), df)
           | Inr i \<Rightarrow>
               (let a1 = price_initial\<lparr>p_best_segment := Some i\<rparr>
                in case andthen (ordered c) (low_competition_segments df) of
                     Inl e \<Rightarrow> ((0, a1\<lparr>p_error := Some (Raised e)\<rparr>), df)
                   | Inr n \<Rightarrow>
                       (let score = price_count_score n
                        in ((score, a1\<lparr>p_low_competition := n, p_score := score\<rparr>), df)))))"

subsection \<open>Stock module\<close>

record stock_analysis =
  s_peak_stock_months :: "(real \<times> real \<times> pyfloat) list"
  s_coefficient_variation :: pyfloat
  s_zero_stock_ratio :: pyfloat
  s_score :: int
  s_error :: "marker option"

text \<open>Lines 295 and 296: the helper columns, assigned on the input table itself.\<close>

definition stock_add_columns :: "dataframe \<Rightarrow> exn + dataframe" where
  "stock_add_columns df =
     andthen (getcol df Data) (\<lambda>c. andthen (dt c) (\<lambda>ds.
       Inr (setcol (setcol df God (dt_year ds)) Mesyats (dt_month ds))))"

text \<open>Lines 300 to 308: for one year, the month with the largest mean stock.\<close>

definition year_stock_peak ::
  "pyfloat list \<Rightarrow> pyfloat list \<Rightarrow> pyfloat list \<Rightarrow> real \<Rightarrow> exn + (real \<times> pyfloat)" where
  "year_stock_peak ys ms xs year =
     (let keep = map (\<lambda>y. feq y year) ys;
          months = select keep ms;
          monthly_avg = group_means months (select keep xs)
      in andthen (idxmax monthly_avg) (\<lambda>i.
           if i < length monthly_avg \<and> i < length (group_keys months)
           then Inr (group_keys months ! i, monthly_avg ! i) else Inl KeyError))"

fun stock_peak_loop ::
  "pyfloat list \<Rightarrow> pyfloat list \<Rightarrow> pyfloat list \<Rightarrow> real list
     \<Rightarrow> exn + (real \<times> real \<times> pyfloat) list" where
  "stock_peak_loop ys ms xs [] = Inr []"
| "stock_peak_loop ys ms xs (year # rest) =
     andthen (year_stock_peak ys ms xs year) (\<lambda>p.
       andthen (stock_peak_loop ys ms xs rest) (\<lambda>ps. Inr ((year, p) # ps)))"

text \<open>Lines 317 and 320. A quotient by \<open>len(df) = 0\<close> is a numpy quotient: NaN.\<close>

definition cv_stock :: "pyfloat list \<Rightarrow> pyfloat" where
  "cv_stock xs =
     (if fgt (nanmean xs) 0
      then (case (nanstd xs, nanmean xs) of (Some s, Some m) \<Rightarrow> Some (s / m) | _ \<Rightarrow> None)
      else Some 0)"

definition zero_stock_ratio :: "dataframe \<Rightarrow> pyfloat list \<Rightarrow> pyfloat" where
  "zero_stock_ratio df xs =
     (if nrows df = 0 then None
      else Some (real (count_where (\<lambda>x. feq x 0) xs) / real (nrows df) * 100))"

definition stock_threshold_score :: "pyfloat \<Rightarrow> pyfloat \<Rightarrow> int" where
  "stock_threshold_score cv zr =
     (if flt cv 0.3 \<and> flt zr 10 then 4
      else if flt cv 0.5 \<and> flt zr 20 then 3
      else if flt cv 0.7 \<and> flt zr 30 then 2
      else 1)"

definition stock_initial :: stock_analysis where
  "stock_initial = \<lparr>s_peak_stock_months = [], s_coefficient_variation = None,
     s_zero_stock_ratio = None, s_score = 0, s_error = None\<rparr>"

definition stock_peaks :: "dataframe \<Rightarrow> exn + (pyfloat list \<times> (real \<times> real \<times> pyfloat) list)" where
  "stock_peaks df =
     andthen (getcol df God) (\<lambda>g. andthen (numeric g) (\<lambda>ys.
     andthen (getcol df Mesyats) (\<lambda>m. andthen (numeric m) (\<lambda>ms.
     andthen (getcol df Ostatok) (\<lambda>c. andthen (numeric c) (\<lambda>xs.
     andthen (stock_peak_loop ys ms xs (unique ys)) (\<lambda>ps. Inr (xs, ps))))))))"

definition calculate_stock_score :: "dataframe \<Rightarrow> (int \<times> stock_analysis) \<times> dataframe" where
  "calculate_stock_score df =
     (if cols df Ostatok = None \<or> cols df Data = None
      then ((0, stock_initial\<lparr>s_error := Some Missing_column\<rparr>), df)
      else case stock_add_columns df of
             Inl e \<Rightarrow> ((0, stock_initial\<lparr>s_error := Some (Raised e)\<rparr>), df)
           | Inr df1 \<Rightarrow>
               (case stock_peaks df1 of
                  Inl e \<Rightarrow> ((0, stock_initial\<lparr>s_error := Some (Raised e)\<rparr>), df1)
                | Inr (xs, ps) \<Rightarrow>
                    (let cv = cv_stock xs; zr = zero_stock_ratio df1 xs;
                         score = stock_threshold_score cv zr
                     in ((score,
                          \<lparr>s_peak_stock_months = ps, s_coefficient_variation = cv,
                           s_zero_stock_ratio = zr, s_score = score, s_error = None\<rparr>),
                         df1))))"

subsection \<open>Ads module\<close>

text \<open>The analysis dict of the ads module; the dict of the early return has no
  \<open>"score"\<close> entry.\<close>

record ads_analysis =
  a_score :: "int option"
  a_error :: "marker option"

text \<open>
  Lines 364 to 366 and 376 to 378. The mean CPM of the top 10 is bound to the name
  \<open>avg_cpm_top10\<close>; the next statement reads the name \<open>avg_cmp_top10\<close>, which is bound
  nowhere in the program, so reading it raises \<open>NameError\<close>. The top-100 block reads the
  column \<open>Search cmp avg\<close> (not \<open>Search cpm avg\<close>).
\<close>

definition avg_cmp_top10 :: "exn + pyfloat" where
  "avg_cmp_top10 = Inl NameError"

definition fdiv :: "pyfloat \<Rightarrow> pyfloat \<Rightarrow> pyfloat" where
  "fdiv a b = (case (a, b) of (Some x, Some y) \<Rightarrow> Some (x / y) | _ \<Rightarrow> None)"

definition ads_ratio_top10 :: "dataframe \<Rightarrow> exn + pyfloat" where
  "ads_ratio_top10 top_10 =
     andthen (getcol top_10 Search_cpm_avg) (\<lambda>c. andthen (numeric c) (\<lambda>cpm.
     andthen (getcol top_10 Final_price) (\<lambda>c2. andthen (numeric c2) (\<lambda>price.
       (let avg_cpm_top10 = nanmean cpm; avg_price_top10 = nanmean price
        in andthen avg_cmp_top10 (\<lambda>cmp.
             Inr (if fgt cmp 0 then fdiv avg_price_top10 cmp else Some 0)))))))"

definition ads_ratio_top100 :: "dataframe \<Rightarrow> exn + pyfloat" where
  "ads_ratio_top100 top_100 =
     andthen (getcol top_100 (Other ''Search cmp avg'')) (\<lambda>c. andthen (numeric c) (\<lambda>cmp.
     andthen (getcol top_100 Final_price) (\<lambda>c2. andthen (numeric c2) (\<lambda>price.
       (let avg_cmp_top100 = nanmean cmp; avg_price_top100 = nanmean price
        in Inr (if fgt avg_cmp_top100 0 then fdiv avg_price_top100 avg_cmp_top100
                else Some 0))))))"

text \<open>Lines 388 to 392: the worse of the two ratio scores.\<close>

definition ads_final_score :: "pyfloat \<Rightarrow> pyfloat \<Rightarrow> int" where
  "ads_final_score ratio_top10 ratio_top100 =
     min (get_ratio_score ratio_top10) (get_ratio_score ratio_top100)"

definition calculate_ads_score :: "dataframe \<Rightarrow> (int \<times> ads_analysis) \<times> dataframe" where
  "calculate_ads_score df =
     (case andthen (getcol df Category_position_avg) numeric of
        Inl e \<Rightarrow> ((0, \<lparr>a_score = Some 0, a_error = Some (Raised e)\<rparr>), df)
      | Inr ps \<Rightarrow>
          (let top_10 = df_select (map (\<lambda>p. fle p 10) ps) df;
               top_100 = df_select (map (\<lambda>p. fle p 100) ps) df
           in if nrows top_10 = 0 \<or> nrows top_100 = 0
              then ((0, \<lparr>a_score = None, a_error = Some Too_few_top\<rparr>), df)
              else case andthen (ads_ratio_top10 top_10) (\<lambda>r10.
                          andthen (ads_ratio_top100 top_100) (\<lambda>r100.
                            andthen (getcol top_10 Search_words_in_ads) (\<lambda>w. Inr (r10, r100)))) of
                     Inl e \<Rightarrow> ((0, \<lparr>a_score = Some 0, a_error = Some (Raised e)\<rparr>), df)
                   | Inr (ratio_top10, ratio_top100) \<Rightarrow>
                       (let final_score = ads_final_score ratio_top10 ratio_top100
                        in ((final_score, \<lparr>a_score = Some final_score, a_error = None\<rparr>),
                            df))))"

section \<open>Scoring engine: the composite score\<close>

datatype recommendation =
    Rec_excellent | Rec_good | Rec_average | Rec_hard
  | Rec_trend_decline | Rec_queries_many | Rec_queries_few | Rec_ads_high | Rec_ads_moderate

record results =
  trend_score :: int
  query_score :: int
  price_score :: int
  stock_score :: int
  ads_score :: int
  total_score :: int
  niche_rating :: rating
  detailed_trends :: "trend_analysis option"
  detailed_queries :: "query_analysis option"
  detailed_price :: "price_analysis option"
  detailed_stock :: "stock_analysis option"
  detailed_ads :: "ads_analysis option"
  recommendations :: "recommendation list"

text \<open>\<open>_generate_recommendations\<close>.\<close>

definition generate_recommendations :: "results \<Rightarrow> recommendation list" where
  "generate_recommendations res =
     [if total_score res \<ge> 16 then Rec_excellent
      else if total_score res \<ge> 11 then Rec_good
      else if total_score res \<ge> 6 then Rec_average
      else Rec_hard]
     @ (if trend_score res \<le> 2 then [Rec_trend_decline] else [])
     @ (if query_score res \<ge> 3 then [Rec_queries_many]
        else if query_score res \<le> 2 then [Rec_queries_few] else [])
     @ (if ads_score res \<le> 2 then [Rec_ads_high]
        else if ads_score res \<ge> 3 then [Rec_ads_moderate] else [])"

text \<open>The loaded data: a dict from report type to table, as an association list. A
  module that assigns columns to its table changes the table the dict holds.\<close>

type_synonym loaded = "(string \<times> dataframe) list"

fun put :: "string \<Rightarrow> dataframe \<Rightarrow> loaded \<Rightarrow> loaded" where
  "put k df [] = []"
| "put k df ((k', v) # rest) = (if k' = k then (k, df) # rest else (k', v) # put k df rest)"

text \<open>Running one module on the table under a key, when the key is present.\<close>

definition run_module ::
  "string \<Rightarrow> (dataframe \<Rightarrow> (int \<times> 'a) \<times> dataframe) \<Rightarrow> loaded \<Rightarrow> (int \<times> 'a option) \<times> loaded" where
  "run_module k f loaded_data =
     (case map_of loaded_data k of
        None \<Rightarrow> ((0, None), loaded_data)
      | Some df \<Rightarrow> (case f df of ((score, analysis), df') \<Rightarrow>
          ((score, Some analysis), put k df' loaded_data)))"

text \<open>\<open>calculate_total_score\<close>: the results dict, and the loaded data as it leaves them.\<close>

definition calculate_total_score :: "loaded \<Rightarrow> results \<times> loaded" where
  "calculate_total_score loaded_data =
     (case run_module ''trends'' calculate_trend_score loaded_data of ((ts, ta), ld1) \<Rightarrow>
      case run_module ''queries'' calculate_query_score ld1 of ((qs, qa), ld2) \<Rightarrow>
      case run_module ''price'' calculate_price_score ld2 of ((ps, pa), ld3) \<Rightarrow>
      case run_module ''days'' calculate_stock_score ld3 of ((ss, sa), ld4) \<Rightarrow>
      case run_module ''products'' calculate_ads_score ld4 of ((as, aa), ld5) \<Rightarrow>
        (let total = ts + qs + ps + ss + as;
             res = \<lparr>trend_score = ts, query_score = qs, price_score = ps, stock_score = ss,
                    ads_score = as, total_score = total,
                    niche_rating = get_niche_rating total,
                    detailed_trends = ta, detailed_queries = qa, detailed_price = pa,
                    detailed_stock = sa, detailed_ads = aa, recommendations = []\<rparr>
         in (res\<lparr>recommendations := generate_recommendations res\<rparr>, ld5)))"

section \<open>Data validator (data\_validator.py)\<close>

text \<open>
  The validators only read their table: \<open>isna\<close>, \<open>duplicated\<close>, the comparisons,
  \<open>dropna\<close> and \<open>sort_values\<close> (never called in place) return new objects, and no
  statement assigns into the table. Each validator is modelled, like the scoring modules,
  as returning its result together with the table as it leaves it.
\<close>

text \<open>
  The messages of the validator, one constructor per message text; the numbers are the
  counts (or the percentage, or the column) the message quotes. \<open>Validation_exception\<close>
  is the message of the \<open>except\<close> branch, with the caught exception.
\<close>

datatype msg =
    Missing_columns "col list"
  | Invalid_dates nat | Short_period | Long_period
  | Negative_values nat col | Many_zeros col
  | Inconsistent_products nat
  | Empty_keywords nat | Duplicate_keywords nat
  | Zero_frequency nat | Negative_frequency nat | Zero_products nat
  | No_effective_queries | Few_effective_queries nat
  | Non_numeric_from nat | Non_numeric_to nat | Invalid_ranges nat | Overlapping_ranges nat
  | Zero_revenue nat | Negative_revenue nat | Inconsistent_segments nat
  | Date_gaps nat | Negative_stock nat | Many_zero_stock_days nat nat
  | Empty_sku nat | Duplicate_sku nat | Zero_price nat | Negative_price nat
  | Few_ads pyfloat | Too_many_ads pyfloat | No_top10 | Few_top100 nat
  | Validation_exception exn

text \<open>The extra entry of a validator's result dict.\<close>

text \<open>A value of a column of any dtype, as the result dict carries it.\<close>

datatype cell = Num real | Ts timestamp | Str string

datatype info =
    No_info
  | Date_range "(timestamp \<times> timestamp) option"
  | Effective_queries nat
  | Price_range "(cell option \<times> cell option) option"
  | Top_counts nat nat

record validation =
  valid :: bool
  warnings :: "msg list"
  errors :: "msg list"
  records_count :: nat
  extra :: info

subsection \<open>Column operations of the validator\<close>

text \<open>\<open>isna\<close>, \<open>duplicated\<close> and \<open>== 0\<close> work on every dtype.\<close>

fun isna :: "column \<Rightarrow> bool list" where
  "isna (NumCol xs) = map (\<lambda>x. x = None) xs"
| "isna (DateCol ds) = map (\<lambda>x. x = None) ds"
| "isna (ObjCol ss) = map (\<lambda>x. x = None) ss"

definition isna_sum :: "column \<Rightarrow> nat" where
  "isna_sum c = count_where id (isna c)"

definition isna_all :: "column \<Rightarrow> bool" where
  "isna_all c = list_all id (isna c)"

text \<open>\<open>duplicated().sum()\<close>: the cells equal to an earlier cell.\<close>

fun duplicated_sum :: "column \<Rightarrow> nat" where
  "duplicated_sum (NumCol xs) = length xs - length (remdups xs)"
| "duplicated_sum (DateCol ds) = length ds - length (remdups ds)"
| "duplicated_sum (ObjCol ss) = length ss - length (remdups ss)"

fun eq_zero_sum :: "column \<Rightarrow> nat" where
  "eq_zero_sum (NumCol xs) = count_where (\<lambda>x. feq x 0) xs"
| "eq_zero_sum (DateCol ds) = 0"
| "eq_zero_sum (ObjCol ss) = 0"

definition earliest :: "timestamp list \<Rightarrow> timestamp" where
  "earliest ts = fold (\<lambda>t m. if toordinal t < toordinal m then t else m) (tl ts) (hd ts)"

definition latest :: "timestamp list \<Rightarrow> timestamp" where
  "latest ts = fold (\<lambda>t m. if toordinal m < toordinal t then t else m) (tl ts) (hd ts)"

text \<open>
  The running state of a validator: the \<open>warnings\<close> and \<open>errors\<close> lists. A step
  returns the exception it raised, if any, with the lists as they are at that moment.
\<close>

type_synonym vstate = "msg list \<times> msg list"

type_synonym vstep = "vstate \<Rightarrow> exn option \<times> vstate"

definition seq :: "vstep \<Rightarrow> vstep \<Rightarrow> vstep" where
  "seq s1 s2 st = (case s1 st of (Some e, st') \<Rightarrow> (Some e, st') | (None, st') \<Rightarrow> s2 st')"

definition skip :: vstep where
  "skip st = (None, st)"

definition raise :: "exn \<Rightarrow> vstep" where
  "raise e st = (Some e, st)"

definition warn_if :: "bool \<Rightarrow> msg \<Rightarrow> vstep" where
  "warn_if b m st = (case st of (w, e) \<Rightarrow> (None, (if b then w @ [m] else w, e)))"

definition error_if :: "bool \<Rightarrow> msg \<Rightarrow> vstep" where
  "error_if b m st = (case st of (w, e) \<Rightarrow> (None, (w, if b then e @ [m] else e)))"

text \<open>A step on a column that exists and is read numerically.\<close>

definition on_numeric :: "column \<Rightarrow> (pyfloat list \<Rightarrow> vstep) \<Rightarrow> vstep" where
  "on_numeric c f = (case numeric c of Inl e \<Rightarrow> raise e | Inr xs \<Rightarrow> f xs)"

definition when_present :: "dataframe \<Rightarrow> col \<Rightarrow> (column \<Rightarrow> vstep) \<Rightarrow> vstep" where
  "when_present df c f = (case cols df c of None \<Rightarrow> skip | Some x \<Rightarrow> f x)"

text \<open>The check of the required columns.\<close>

definition missing_cols :: "dataframe \<Rightarrow> col list \<Rightarrow> col list" where
  "missing_cols df required = filter (\<lambda>c. cols df c = None) required"

definition check_required :: "dataframe \<Rightarrow> col list \<Rightarrow> vstep" where
  "check_required df required =
     error_if (missing_cols df required \<noteq> []) (Missing_columns (missing_cols df required))"

text \<open>The end of a validator's \<open>try\<close> block: a caught exception is appended to the
  errors.\<close>

definition run_try :: "(exn \<Rightarrow> msg) \<Rightarrow> vstep \<Rightarrow> vstate" where
  "run_try wrap body =
     (case body ([], []) of
        (None, st) \<Rightarrow> st
      | (Some ex, (w, e)) \<Rightarrow> (w, e @ [wrap ex]))"

text \<open>\<open>_get_date_range\<close>: any exception inside is swallowed.\<close>

definition get_date_range :: "dataframe \<Rightarrow> col \<Rightarrow> (timestamp \<times> timestamp) option" where
  "get_date_range df date_column =
     (case cols df date_column of
        Some (DateCol ds) \<Rightarrow>
          if present ds = [] then None else Some (earliest (present ds), latest (present ds))
      | _ \<Rightarrow> None)"

subsection \<open>Trends\<close>

definition trends_required :: "col list" where
  "trends_required = [Mesyats, Prodazhi, Vyruchka, Tovary, Tovary_s_prodazhami, Brendy,
     Brendy_s_prodazhami, Prodavtsy, Prodavtsy_s_prodazhami, Vyruchka_na_tovar, Sredniy_chek]"

text \<open>Lines 59 to 73. On a column that is not a datetime column, the difference of two
  of its values has no \<open>days\<close> (floats), or does not exist (strings).\<close>

definition check_month :: "column \<Rightarrow> vstep" where
  "check_month c =
     seq (warn_if (isna_sum c > 0) (Invalid_dates (isna_sum c)))
       (if isna_all c then skip
        else case c of
               DateCol ds \<Rightarrow>
                 (let date_range = toordinal (latest (present ds)) - toordinal (earliest (present ds))
                  in if date_range < 30 then warn_if True Short_period
                     else warn_if (date_range > 1095) Long_period)
             | NumCol xs \<Rightarrow> raise AttributeError
             | ObjCol ss \<Rightarrow> raise TypeError)"

text \<open>Lines 77 to 85, for one column.\<close>

definition check_numeric_column :: "dataframe \<Rightarrow> col \<Rightarrow> vstep" where
  "check_numeric_column df c =
     when_present df c (\<lambda>x. on_numeric x (\<lambda>xs.
       seq (warn_if (count_where (\<lambda>v. flt v 0) xs > 0)
              (Negative_values (count_where (\<lambda>v. flt v 0) xs) c))
           (warn_if (real (count_where (\<lambda>v. feq v 0) xs) > real (nrows df) * 0.5)
              (Many_zeros c))))"

text \<open>The number of rows where the first column is greater than the second.\<close>

definition count_greater :: "pyfloat list \<Rightarrow> pyfloat list \<Rightarrow> nat" where
  "count_greater xs ys = count_where (\<lambda>(x, y). fgt2 x y) (zip xs ys)"

text \<open>\<open>(a > b).sum()\<close> on two columns: columns of one dtype are compared cell by cell;
  the comparison of columns of different dtypes is modelled as a raised \<open>TypeError\<close>.\<close>

fun count_greater_cols :: "column \<Rightarrow> column \<Rightarrow> exn + nat" where
  "count_greater_cols (NumCol xs) (NumCol ys) = Inr (count_greater xs ys)"
| "count_greater_cols (DateCol xs) (DateCol ys) =
     Inr (count_where (\<lambda>(x, y). gt_by ts_less x y) (zip xs ys))"
| "count_greater_cols (ObjCol xs) (ObjCol ys) =
     Inr (count_where (\<lambda>(x, y). gt_by str_less x y) (zip xs ys))"
| "count_greater_cols (NumCol xs) (DateCol ys) = Inl TypeError"
| "count_greater_cols (NumCol xs) (ObjCol ys) = Inl TypeError"
| "count_greater_cols (DateCol xs) (NumCol ys) = Inl TypeError"
| "count_greater_cols (DateCol xs) (ObjCol ys) = Inl TypeError"
| "count_greater_cols (ObjCol xs) (NumCol ys) = Inl TypeError"
| "count_greater_cols (ObjCol xs) (DateCol ys) = Inl TypeError"

text \<open>Lines 88 to 91.\<close>

definition check_products_consistency :: "dataframe \<Rightarrow> vstep" where
  "check_products_consistency df =
     when_present df Tovary (\<lambda>p. when_present df Tovary_s_prodazhami (\<lambda>pws.
       case count_greater_cols pws p of
         Inl ex \<Rightarrow> raise ex
       | Inr inconsistent \<Rightarrow>
           error_if (inconsistent > 0) (Inconsistent_products inconsistent)))"

definition trends_body :: "dataframe \<Rightarrow> vstep" where
  "trends_body df =
     seq (check_required df trends_required)
    (seq (when_present df Mesyats check_month)
    (seq (check_numeric_column df Prodazhi)
    (seq (check_numeric_column df Vyruchka)
    (seq (check_numeric_column df Tovary)
    (seq (check_numeric_column df Brendy)
         (check_products_consistency df))))))"

text \<open>\<open>_validate_trends_data\<close>: its result, and the table as it leaves it.\<close>

definition validate_trends_data :: "dataframe \<Rightarrow> (exn + validation) \<times> dataframe" where
  "validate_trends_data df =
     (case run_try Validation_exception (trends_body df) of (w, e) \<Rightarrow>
        (Inr \<lparr>valid = (length e = 0), warnings = w, errors = e, records_count = nrows df,
              extra = Date_range (get_date_range df Mesyats)\<rparr>, df))"

subsection \<open>Queries\<close>

definition queries_required :: "col list" where
  "queries_required = [Klyuchevoe_slovo, Chastota_WB, Tovarov_v_zaprose]"

text \<open>Lines 144 to 149: the derived coefficient column is read without a test that it
  exists.\<close>

definition check_effective_queries :: "dataframe \<Rightarrow> vstep" where
  "check_effective_queries df =
     when_present df Chastota_WB (\<lambda>f. when_present df Tovarov_v_zaprose (\<lambda>p.
       case getcol df Koeffitsient of
         Inl e \<Rightarrow> raise e
       | Inr k \<Rightarrow> on_numeric k (\<lambda>ks.
           (let effective_queries = count_where (\<lambda>v. fge v 2) ks
            in if effective_queries = 0 then warn_if True No_effective_queries
               else warn_if (effective_queries < 10) (Few_effective_queries effective_queries)))))"

definition queries_body :: "dataframe \<Rightarrow> vstep" where
  "queries_body df =
     seq (check_required df queries_required)
    (seq (when_present df Klyuchevoe_slovo (\<lambda>c.
            seq (warn_if (isna_sum c > 0) (Empty_keywords (isna_sum c)))
                (warn_if (duplicated_sum c > 0) (Duplicate_keywords (duplicated_sum c)))))
    (seq (when_present df Chastota_WB (\<lambda>c.
            seq (warn_if (eq_zero_sum c > 0) (Zero_frequency (eq_zero_sum c)))
                (on_numeric c (\<lambda>xs.
                   error_if (count_where (\<lambda>v. flt v 0) xs > 0)
                     (Negative_frequency (count_where (\<lambda>v. flt v 0) xs))))))
    (seq (when_present df Tovarov_v_zaprose (\<lambda>c.
            warn_if (eq_zero_sum c > 0) (Zero_products (eq_zero_sum c))))
         (check_effective_queries df))))"

text \<open>\<open>_validate_queries_data\<close>. The count of effective queries in the result dict is
  computed outside the \<open>try\<close> block.\<close>

definition validate_queries_data :: "dataframe \<Rightarrow> (exn + validation) \<times> dataframe" where
  "validate_queries_data df =
     (case run_try Validation_exception (queries_body df) of (w, e) \<Rightarrow>
        (case (case cols df Koeffitsient of
                 None \<Rightarrow> Inr 0
               | Some k \<Rightarrow> andthen (numeric k) (\<lambda>ks. Inr (count_where (\<lambda>v. fge v 2) ks))) of
           Inl ex \<Rightarrow> (Inl ex, df)
         | Inr n \<Rightarrow>
             (Inr \<lparr>valid = (length e = 0), warnings = w, errors = e,
                   records_count = nrows df, extra = Effective_queries n\<rparr>, df)))"

subsection \<open>Price segmentation\<close>

definition price_required :: "col list" where
  "price_required = [Ot, Do, Vyruchka_na_tovar]"

text \<open>\<open>dropna(subset=[a, b])\<close>: the rows where neither column is missing.\<close>

definition notna_both :: "column \<Rightarrow> column \<Rightarrow> bool list" where
  "notna_both a b = map (\<lambda>(x, y). \<not> x \<and> \<not> y) (zip (isna a) (isna b))"

text \<open>Lines 201 to 205: the rows sorted by their left end (a stable insertion sort
  stands for \<open>sort_values\<close>); each row whose right end is beyond the next row's left end
  counts. The order \<open>lt\<close> is the one of the dtype of the two columns.\<close>

fun overlaps :: "('a \<Rightarrow> 'a \<Rightarrow> bool) \<Rightarrow> ('a option \<times> 'a option) list \<Rightarrow> nat" where
  "overlaps lt ((a, b) # (c, d) # rest) =
     (if gt_by lt b c then 1 else 0) + overlaps lt ((c, d) # rest)"
| "overlaps lt [x] = 0"
| "overlaps lt [] = 0"

fun insort_by :: "('a \<Rightarrow> 'a \<Rightarrow> bool) \<Rightarrow> 'a \<Rightarrow> 'a list \<Rightarrow> 'a list" where
  "insort_by lt x [] = [x]"
| "insort_by lt x (y # ys) =
     (if lt y x then y # insort_by lt x ys else x # y # ys)"

definition sort_by_from ::
  "('a \<Rightarrow> 'a \<Rightarrow> bool) \<Rightarrow> ('a option \<times> 'a option) list \<Rightarrow> ('a option \<times> 'a option) list" where
  "sort_by_from lt rows = foldr (insort_by (\<lambda>r s. gt_by lt (fst s) (fst r))) rows []"

text \<open>Lines 196 to 208, on the rows where neither end is missing.\<close>

definition check_valid_rows ::
  "('a \<Rightarrow> 'a \<Rightarrow> bool) \<Rightarrow> ('a option \<times> 'a option) list \<Rightarrow> vstep" where
  "check_valid_rows lt valid_rows =
     (let invalid_ranges = count_where (\<lambda>(a, b). ge_by lt a b) valid_rows;
          n = overlaps lt (sort_by_from lt valid_rows)
      in seq (error_if (invalid_ranges > 0) (Invalid_ranges invalid_ranges))
             (warn_if (n > 0) (Overlapping_ranges n)))"

text \<open>Lines 182 to 208. Two columns of one dtype are compared in the order of that dtype;
  the comparison of columns of different dtypes is modelled as a raised \<open>TypeError\<close>.\<close>

definition check_ranges :: "column \<Rightarrow> column \<Rightarrow> vstep" where
  "check_ranges from to =
     seq (error_if (isna_sum from > 0) (Non_numeric_from (isna_sum from)))
    (seq (error_if (isna_sum to > 0) (Non_numeric_to (isna_sum to)))
         (if count_where id (notna_both from to) = 0 then skip
          else case (from, to) of
                 (NumCol fs, NumCol ts) \<Rightarrow>
                   check_valid_rows num_less (select (notna_both from to) (zip fs ts))
               | (DateCol fs, DateCol ts) \<Rightarrow>
                   check_valid_rows ts_less (select (notna_both from to) (zip fs ts))
               | (ObjCol fs, ObjCol ts) \<Rightarrow>
                   check_valid_rows str_less (select (notna_both from to) (zip fs ts))
               | _ \<Rightarrow> raise TypeError))"

text \<open>Lines 211 to 218.\<close>

definition check_revenue :: "column \<Rightarrow> vstep" where
  "check_revenue c =
     seq (warn_if (eq_zero_sum c > 0) (Zero_revenue (eq_zero_sum c)))
         (on_numeric c (\<lambda>xs.
            error_if (count_where (\<lambda>v. flt v 0) xs > 0)
              (Negative_revenue (count_where (\<lambda>v. flt v 0) xs))))"

text \<open>Lines 221 to 226.\<close>

definition check_segments_consistency :: "dataframe \<Rightarrow> vstep" where
  "check_segments_consistency df =
     when_present df Tovary (\<lambda>p. when_present df Tovary_s_prodazhami (\<lambda>pws.
       if count_where id (notna_both p pws) = 0 then skip
       else case count_greater_cols (col_select (notna_both p pws) pws)
                   (col_select (notna_both p pws) p) of
              Inl ex \<Rightarrow> raise ex
            | Inr inconsistent \<Rightarrow>
                error_if (inconsistent > 0) (Inconsistent_segments inconsistent)))"

definition price_body :: "dataframe \<Rightarrow> vstep" where
  "price_body df =
     seq (when_present df Ot (\<lambda>from. when_present df Do (\<lambda>to. check_ranges from to)))
    (seq (when_present df Vyruchka_na_tovar check_revenue)
         (check_segments_consistency df))"

definition nanmin :: "pyfloat list \<Rightarrow> pyfloat" where
  "nanmin xs = (if present xs = [] then None else Some (fold min (present xs) (hd (present xs))))"

definition nanmax :: "pyfloat list \<Rightarrow> pyfloat" where
  "nanmax xs = (if present xs = [] then None else Some (maximum (present xs)))"

text \<open>\<open>Series.min\<close> and \<open>Series.max\<close> on a column of any dtype: missing values are
  skipped, a column without values gives a missing value.\<close>

fun col_min :: "column \<Rightarrow> cell option" where
  "col_min (NumCol xs) = map_option Num (nanmin xs)"
| "col_min (DateCol ds) = (if present ds = [] then None else Some (Ts (earliest (present ds))))"
| "col_min (ObjCol ss) =
     (if present ss = [] then None else Some (Str (minimum_by str_less (present ss))))"

fun col_max :: "column \<Rightarrow> cell option" where
  "col_max (NumCol xs) = map_option Num (nanmax xs)"
| "col_max (DateCol ds) = (if present ds = [] then None else Some (Ts (latest (present ds))))"
| "col_max (ObjCol ss) =
     (if present ss = [] then None else Some (Str (maximum_by str_less (present ss))))"

text \<open>\<open>_validate_price_data\<close>. Missing required columns end it at once; the price range
  of the result dict is computed outside the \<open>try\<close> block.\<close>

definition validate_price_data :: "dataframe \<Rightarrow> (exn + validation) \<times> dataframe" where
  "validate_price_data df =
     (if missing_cols df price_required \<noteq> []
      then (Inr \<lparr>valid = False, warnings = [],
                 errors = [Missing_columns (missing_cols df price_required)],
                 records_count = nrows df, extra = No_info\<rparr>, df)
      else case run_try Validation_exception (price_body df) of (w, e) \<Rightarrow>
        (case (if nrows df > 0
               then andthen (getcol df Ot) (\<lambda>from. andthen (getcol df Do) (\<lambda>to.
                      Inr (Some (col_min from, col_max to))))
               else Inr None) of
           Inl ex \<Rightarrow> (Inl ex, df)
         | Inr r \<Rightarrow>
             (Inr \<lparr>valid = (length e = 0), warnings = w, errors = e,
                   records_count = nrows df, extra = Price_range r\<rparr>, df)))"

subsection \<open>Daily stock\<close>

definition days_required :: "col list" where
  "days_required = [Data, Ostatok]"

text \<open>Lines 260 to 265: pairs of consecutive sorted dates more than a day apart. NaT
  sorts last and its differences compare false.\<close>

fun gaps :: "int list \<Rightarrow> nat" where
  "gaps (a # b # rest) = (if b - a > 1 then 1 else 0) + gaps (b # rest)"
| "gaps [x] = 0"
| "gaps [] = 0"

definition check_dates :: "column \<Rightarrow> vstep" where
  "check_dates c =
     seq (warn_if (isna_sum c > 0) (Invalid_dates (isna_sum c)))
       (if isna_all c then skip
        else case c of
               DateCol ds \<Rightarrow>
                 (let date_gaps = gaps (sort (map toordinal (present ds)))
                  in warn_if (date_gaps > 0) (Date_gaps date_gaps))
             | NumCol xs \<Rightarrow> if length xs \<ge> 2 then raise AttributeError else skip
             | ObjCol ss \<Rightarrow> if length ss \<ge> 2 then raise TypeError else skip)"

definition check_stock :: "dataframe \<Rightarrow> column \<Rightarrow> vstep" where
  "check_stock df c =
     on_numeric c (\<lambda>xs.
       seq (warn_if (count_where (\<lambda>v. flt v 0) xs > 0)
              (Negative_stock (count_where (\<lambda>v. flt v 0) xs)))
           (warn_if (real (count_where (\<lambda>v. feq v 0) xs) > real (nrows df) * 0.3)
              (Many_zero_stock_days (count_where (\<lambda>v. feq v 0) xs) (nrows df))))"

definition days_body :: "dataframe \<Rightarrow> vstep" where
  "days_body df =
     seq (check_required df days_required)
    (seq (when_present df Data check_dates)
         (when_present df Ostatok (check_stock df)))"

definition validate_days_data :: "dataframe \<Rightarrow> (exn + validation) \<times> dataframe" where
  "validate_days_data df =
     (case run_try Validation_exception (days_body df) of (w, e) \<Rightarrow>
        (Inr \<lparr>valid = (length e = 0), warnings = w, errors = e, records_count = nrows df,
              extra = Date_range (get_date_range df Data)\<rparr>, df))"

subsection \<open>Products\<close>

definition products_required :: "col list" where
  "products_required = [SKU, Final_price, Category_position_avg]"

text \<open>Lines 326 to 334. The quotient by \<open>len(df) = 0\<close> is a numpy quotient: NaN.\<close>

definition check_ads :: "dataframe \<Rightarrow> column \<Rightarrow> vstep" where
  "check_ads df c =
     on_numeric c (\<lambda>xs.
       (let ads_products = count_where (\<lambda>v. fgt v 0) xs;
            ads_percentage = (if nrows df = 0 then None
                              else Some (real ads_products / real (nrows df) * 100))
        in if flt ads_percentage 10 then warn_if True (Few_ads ads_percentage)
           else warn_if (fgt ads_percentage 90) (Too_many_ads ads_percentage)))"

definition check_positions :: "column \<Rightarrow> vstep" where
  "check_positions c =
     on_numeric c (\<lambda>xs.
       seq (warn_if (count_where (\<lambda>v. fle v 10) xs = 0) No_top10)
           (warn_if (count_where (\<lambda>v. fle v 100) xs < 10)
              (Few_top100 (count_where (\<lambda>v. fle v 100) xs))))"

definition products_body :: "dataframe \<Rightarrow> vstep" where
  "products_body df =
     seq (check_required df products_required)
    (seq (when_present df SKU (\<lambda>c.
            seq (warn_if (isna_sum c > 0) (Empty_sku (isna_sum c)))
                (warn_if (duplicated_sum c > 0) (Duplicate_sku (duplicated_sum c)))))
    (seq (when_present df Final_price (\<lambda>c.
            seq (warn_if (eq_zero_sum c > 0) (Zero_price (eq_zero_sum c)))
                (on_numeric c (\<lambda>xs.
                   error_if (count_where (\<lambda>v. flt v 0) xs > 0)
                     (Negative_price (count_where (\<lambda>v. flt v 0) xs))))))
    (seq (when_present df Search_cpm_avg (check_ads df))
         (when_present df Category_position_avg check_positions))))"

definition validate_products_data :: "dataframe \<Rightarrow> (exn + validation) \<times> dataframe" where
  "validate_products_data df =
     (case run_try Validation_exception (products_body df) of (w, e) \<Rightarrow>
        (case (case cols df Category_position_avg of
                 None \<Rightarrow> Inr (0, 0)
               | Some c \<Rightarrow> andthen (numeric c) (\<lambda>xs.
                   Inr (count_where (\<lambda>v. fle v 10) xs, count_where (\<lambda>v. fle v 100) xs))) of
           Inl ex \<Rightarrow> (Inl ex, df)
         | Inr (t10, t100) \<Rightarrow>
             (Inr \<lparr>valid = (length e = 0), warnings = w, errors = e,
                   records_count = nrows df, extra = Top_counts t10 t100\<rparr>, df)))"

subsection \<open>All reports\<close>

text \<open>\<open>_validate_by_type\<close>. (The dict for an unknown report type has no count of
  records; the record holds 0 there.)\<close>

definition validate_by_type :: "dataframe \<Rightarrow> string \<Rightarrow> (exn + validation) \<times> dataframe" where
  "validate_by_type df data_type =
     (if data_type = ''trends'' then validate_trends_data df
      else if data_type = ''queries'' then validate_queries_data df
      else if data_type = ''price'' then validate_price_data df
      else if data_type = ''days'' then validate_days_data df
      else if data_type = ''products'' then validate_products_data df
      else (Inr \<lparr>valid = True, warnings = [], errors = [], records_count = 0,
                 extra = No_info\<rparr>, df))"

text \<open>
  \<open>validate_all_data\<close>: the loop over the items of the loaded data. Each table is handed
  to its validator and put back as the validator leaves it; an exception that escapes a
  validator ends the loop.
\<close>

fun validate_all_data :: "loaded \<Rightarrow> (exn + (string \<times> validation) list) \<times> loaded" where
  "validate_all_data [] = (Inr [], [])"
| "validate_all_data ((data_type, df) # rest) =
     (case validate_by_type df data_type of
        (Inl ex, df') \<Rightarrow> (Inl ex, (data_type, df') # rest)
      | (Inr r, df') \<Rightarrow>
          (case validate_all_data rest of
             (Inl ex, rest') \<Rightarrow> (Inl ex, (data_type, df') # rest')
           | (Inr rs, rest') \<Rightarrow> (Inr ((data_type, r) # rs), (data_type, df') # rest')))"

section \<open>From upload to scoring (file\_uploader.py, app.py)\<close>

record session_state =
  loaded_data :: loaded
  validation_results :: "(string \<times> validation) list"
  scoring_results :: "results option"

text \<open>
  \<open>_process_uploaded_files\<close>, from the point where the file processor has returned the
  loaded data: an empty dict, or an exception of the validation, leaves the session as
  it is; otherwise the loaded data and the validation results are stored.
\<close>

definition process_uploaded_files :: "loaded \<Rightarrow> session_state \<Rightarrow> session_state" where
  "process_uploaded_files ld st =
     (if ld = [] then st
      else case validate_all_data ld of
             (Inl ex, ld') \<Rightarrow> st
           | (Inr vr, ld') \<Rightarrow> st\<lparr>loaded_data := ld', validation_results := vr\<rparr>)"

text \<open>\<open>calculate_scoring\<close> of app.py: the scoring engine on the loaded data. (Its
  \<open>except\<close> branch is never taken: no exception escapes \<open>calculate_total_score\<close>.)\<close>

definition calculate_scoring :: "loaded \<Rightarrow> results \<times> loaded" where
  "calculate_scoring ld = calculate_total_score ld"

text \<open>The scoring button of \<open>render_main_dashboard\<close>: shown when the session holds
  loaded data.\<close>

definition score_session :: "session_state \<Rightarrow> session_state" where
  "score_session st =
     (if loaded_data st = [] then st
      else case calculate_scoring (loaded_data st) of
             (res, ld') \<Rightarrow> st\<lparr>loaded_data := ld', scoring_results := Some res\<rparr>)"

section \<open>Notions used in the proofs about the validator\<close>

text \<open>A step keeps a property of all warnings; a step never raises; a step, run to its
  end, leaves an error behind; a step never raises and appends a given error.\<close>

definition keeps_warnings :: "(msg \<Rightarrow> bool) \<Rightarrow> vstep \<Rightarrow> bool" where
  "keeps_warnings P s = (\<forall>w e. list_all P w \<longrightarrow> list_all P (fst (snd (s (w, e)))))"

definition never_raises :: "vstep \<Rightarrow> bool" where
  "never_raises s = (\<forall>st. fst (s st) = None)"

definition leaves_error :: "vstep \<Rightarrow> bool" where
  "leaves_error s = (\<forall>st. fst (s st) = None \<longrightarrow> snd (snd (s st)) \<noteq> [])"

definition records :: "msg \<Rightarrow> vstep \<Rightarrow> bool" where
  "records m s = (\<forall>st. fst (s st) = None \<and> m \<in> set (snd (snd (s st))))"

section \<open>Example inputs\<close>

definition products_example :: dataframe where
  "products_example = \<lparr>nrows = 2, cols = [Category_position_avg \<mapsto> NumCol [Some 5, Some 50],
     Final_price \<mapsto> NumCol [Some 500, Some 100],
     Search_cpm_avg \<mapsto> NumCol [Some 100, Some 300],
     Search_words_in_ads \<mapsto> NumCol [Some 0, Some 3]]\<rparr>"

definition queries_example :: dataframe where
  "queries_example = \<lparr>nrows = 2, cols = [Koeffitsient \<mapsto> NumCol [Some 3, Some 1],
     Klyuchevoe_slovo \<mapsto> ObjCol [Some ''a'', Some ''b''],
     Chastota_WB \<mapsto> NumCol [Some 30, Some 10],
     Tovarov_v_zaprose \<mapsto> NumCol [Some 10, Some 10]]\<rparr>"

text \<open>A trends report of two months of one year; in its first row the products with
  sales (15) exceed the products (10).\<close>

definition trends_example :: dataframe where
  "trends_example = \<lparr>nrows = 2, cols = [
     Mesyats \<mapsto> DateCol [Some (2024, 1, 1), Some (2024, 2, 1)],
     Prodazhi \<mapsto> NumCol [Some 100, Some 200],
     Tovary \<mapsto> NumCol [Some 10, Some 20],
     Tovary_s_prodazhami \<mapsto> NumCol [Some 15, Some 5],
     Brendy \<mapsto> NumCol [Some 4, Some 4],
     Brendy_s_prodazhami \<mapsto> NumCol [Some 3, Some 2],
     Sredniy_chek \<mapsto> NumCol [Some 900, Some 950]]\<rparr>"


text \<open>A price report of two segments; in its second row the products with sales (25)
  exceed the products (20).\<close>

definition price_example :: dataframe where
  "price_example = \<lparr>nrows = 2, cols = [
     Ot \<mapsto> NumCol [Some 0, Some 100],
     Do \<mapsto> NumCol [Some 100, Some 200],
     Vyruchka_na_tovar \<mapsto> NumCol [Some 5, Some 7],
     Tovary \<mapsto> NumCol [Some 10, Some 20],
     Tovary_s_prodazhami \<mapsto> NumCol [Some 3, Some 25]]\<rparr>"

text \<open>A daily stock report of two consecutive days.\<close>

definition days_example :: dataframe where
  "days_example = \<lparr>nrows = 2, cols = [
     Data \<mapsto> DateCol [Some (2024, 1, 1), Some (2024, 1, 2)],
     Ostatok \<mapsto> NumCol [Some 5, Some 5]]\<rparr>"

text \<open>The same two days with an empty stock on both.\<close>

definition days_out_of_stock :: dataframe where
  "days_out_of_stock = \<lparr>nrows = 2, cols = [
     Data \<mapsto> DateCol [Some (2024, 1, 1), Some (2024, 1, 2)],
     Ostatok \<mapsto> NumCol [Some 0, Some 0]]\<rparr>"

text \<open>A trends report whose sales column holds text.\<close>

definition trends_text_sales :: dataframe where
  "trends_text_sales = \<lparr>nrows = 2, cols = [
     Mesyats \<mapsto> DateCol [Some (2024, 1, 1), Some (2024, 2, 1)],
     Prodazhi \<mapsto> ObjCol [Some ''10'', Some ''9''],
     Tovary \<mapsto> NumCol [Some 10, Some 20]]\<rparr>"

definition loaded_example :: loaded where
  "loaded_example = [(''trends'', trends_example), (''queries'', queries_example),
     (''days'', days_example)]"

text \<open>A price report without the column of revenue per product; in its second row the
  products with sales (25) exceed the products (20).\<close>

definition price_no_revenue :: dataframe where
  "price_no_revenue = \<lparr>nrows = 2, cols = [
     Ot \<mapsto> NumCol [Some 0, Some 100],
     Do \<mapsto> NumCol [Some 100, Some 200],
     Tovary \<mapsto> NumCol [Some 10, Some 20],
     Tovary_s_prodazhami \<mapsto> NumCol [Some 3, Some 25]]\<rparr>"

text \<open>A price report whose range columns hold text.\<close>

definition price_text :: dataframe where
  "price_text = \<lparr>nrows = 2, cols = [
     Ot \<mapsto> ObjCol [Some ''a'', Some ''c''],
     Do \<mapsto> ObjCol [Some ''d'', Some ''b''],
     Vyruchka_na_tovar \<mapsto> NumCol [Some 5, Some 0]]\<rparr>"

text \<open>The session before any upload.\<close>

definition initial_session :: session_state where
  "initial_session = \<lparr>loaded_data = [], validation_results = [], scoring_results = None\<rparr>"

text \<open>A queries report without the derived coefficient column; a trends report with
  its date column and none of the five metric columns.\<close>

definition queries_no_coefficient :: dataframe where
  "queries_no_coefficient = \<lparr>nrows = 1, cols = [
     Klyuchevoe_slovo \<mapsto> ObjCol [Some ''a''],
     Chastota_WB \<mapsto> NumCol [Some 30],
     Tovarov_v_zaprose \<mapsto> NumCol [Some 10]]\<rparr>"

definition trends_no_metrics :: dataframe where
  "trends_no_metrics = \<lparr>nrows = 1, cols = [
     Mesyats \<mapsto> DateCol [Some (2024, 1, 1)],
     Prodazhi \<mapsto> NumCol [Some 100]]\<rparr>"

definition loaded_incomplete :: loaded where
  "loaded_incomplete = [(''queries'', queries_no_coefficient), (''trends'', trends_no_metrics)]"

section \<open>Properties\<close>

lemma get_ratio_score_range: "0 \<le> get_ratio_score r \<and> get_ratio_score r \<le> 4"
  by (simp add: get_ratio_score_def)

lemma query_efficiency_score_bounds:
  "0 \<le> query_efficiency_score r" "1 \<le> query_efficiency_score r" "query_efficiency_score r \<le> 4"
  by (simp_all add: query_efficiency_score_def)

lemma yoy_change_score_bounds: "1 \<le> yoy_change_score r" "yoy_change_score r \<le> 4"
  by (simp_all add: yoy_change_score_def)

lemma price_count_score_bounds:
  "0 \<le> price_count_score n" "1 \<le> price_count_score n" "price_count_score n \<le> 4"
  by (simp_all add: price_count_score_def)

lemma stock_threshold_score_bounds:
  "0 \<le> stock_threshold_score cv zr" "1 \<le> stock_threshold_score cv zr"
  "stock_threshold_score cv zr \<le> 4"
  by (simp_all add: stock_threshold_score_def)

lemma calculate_yoy_score_bounds:
  "1 \<le> fst (calculate_yoy_score df c)" "fst (calculate_yoy_score df c) \<le> 4"
  by (simp_all add: calculate_yoy_score_def Let_def yoy_change_score_bounds
        split: sum.splits column.splits prod.splits)

lemma sum_list_bounds:
  "\<forall>x \<in> set xs. 1 \<le> x \<and> x \<le> (4::int) \<Longrightarrow>
     int (length xs) \<le> sum_list xs \<and> sum_list xs \<le> 4 * int (length xs)"
  by (induction xs) auto

lemma int_mean_range:
  assumes "\<forall>x \<in> set xs. 1 \<le> x \<and> x \<le> (4::int)" and "xs \<noteq> []"
  shows "1 \<le> int_mean xs \<and> int_mean xs \<le> 4"
proof -
  have n: "0 < real (length xs)" using assms(2) by simp
  from sum_list_bounds[OF assms(1)]
  have lo: "real (length xs) \<le> real_of_int (sum_list xs)"
    and hi: "real_of_int (sum_list xs) \<le> 4 * real (length xs)"
    by linarith+
  have a: "1 \<le> real_of_int (sum_list xs) / real (length xs)"
    using lo n by (simp add: le_divide_eq)
  have b: "real_of_int (sum_list xs) / real (length xs) \<le> 4"
    using hi n by (simp add: divide_le_eq)
  have "1 \<le> \<lfloor>real_of_int (sum_list xs) / real (length xs)\<rfloor>"
    using a by (simp add: le_floor_iff)
  moreover have "\<lfloor>real_of_int (sum_list xs) / real (length xs)\<rfloor> \<le> 4"
    using b by (simp add: floor_le_iff)
  ultimately show ?thesis
    unfolding int_mean_def by simp
qed


lemma calculate_trend_score_range:
  "0 \<le> fst (fst (calculate_trend_score df)) \<and> fst (fst (calculate_trend_score df)) \<le> 4"
proof -
  have m: "1 \<le> int_mean (map (\<lambda>(k, r). fst r) (map (\<lambda>(k, c). (k, calculate_yoy_score d c)) ms))
       \<and> int_mean (map (\<lambda>(k, r). fst r) (map (\<lambda>(k, c). (k, calculate_yoy_score d c)) ms)) \<le> 4"
    if "ms \<noteq> []" for d and ms :: "(metric_key \<times> col) list"
    by (rule int_mean_range) (use that in \<open>auto simp: calculate_yoy_score_bounds\<close>)
  show ?thesis
  proof (cases "trend_add_columns df")
    case (Inl e)
    then show ?thesis by (simp add: calculate_trend_score_def)
  next
    case (Inr df1)
    show ?thesis
    proof (cases "peak_months df1")
      case (Inl e)
      then show ?thesis using Inr by (simp add: calculate_trend_score_def)
    next
      case pm: (Inr pm)
      show ?thesis
      proof (cases "filter (\<lambda>(k, c). cols df1 c \<noteq> None) metrics = []")
        case True
        then show ?thesis using Inr pm by (simp add: calculate_trend_score_def Let_def)
      next
        case False
        from m[OF False, of df1] show ?thesis
          using Inr pm False by (simp add: calculate_trend_score_def Let_def)
      qed
    qed
  qed
qed

lemma calculate_query_score_range:
  "0 \<le> fst (fst (calculate_query_score df)) \<and> fst (fst (calculate_query_score df)) \<le> 4"
  by (simp add: calculate_query_score_def Let_def query_efficiency_score_bounds
        split: sum.splits option.splits)

lemma calculate_price_score_range:
  "0 \<le> fst (fst (calculate_price_score df)) \<and> fst (fst (calculate_price_score df)) \<le> 4"
  by (simp add: calculate_price_score_def Let_def price_count_score_bounds
        split: sum.splits option.splits prod.splits)

lemma calculate_stock_score_range:
  "0 \<le> fst (fst (calculate_stock_score df)) \<and> fst (fst (calculate_stock_score df)) \<le> 4"
  by (simp add: calculate_stock_score_def Let_def stock_threshold_score_bounds
        split: sum.splits option.splits prod.splits)

lemma ads_ratio_top10_raises: "ads_ratio_top10 t \<noteq> Inr r"
  by (simp add: ads_ratio_top10_def andthen_def avg_cmp_top10_def Let_def split: sum.splits)

lemma calculate_ads_score_zero: "fst (fst (calculate_ads_score df)) = 0"
proof (cases "andthen (getcol df Category_position_avg) numeric")
  case (Inl e)
  then show ?thesis by (simp add: calculate_ads_score_def)
next
  case (Inr ps)
  have "andthen (ads_ratio_top10 t) f \<noteq> Inr z" for t z
    and f :: "pyfloat \<Rightarrow> exn + (pyfloat \<times> pyfloat)"
    using ads_ratio_top10_raises[of t] by (cases "ads_ratio_top10 t") (auto simp: andthen_def)
  then show ?thesis using Inr
    by (simp add: calculate_ads_score_def Let_def split: sum.splits prod.splits)
qed


lemma run_module_score:
  "fst (fst (run_module k f ld)) = (case map_of ld k of None \<Rightarrow> 0 | Some df \<Rightarrow> fst (fst (f df)))"
  by (cases "map_of ld k"; cases "f (the (map_of ld k))") (auto simp: run_module_def)

lemma run_module_range:
  assumes "\<And>df. 0 \<le> fst (fst (f df)) \<and> fst (fst (f df)) \<le> 4"
  shows "0 \<le> fst (fst (run_module k f ld)) \<and> fst (fst (run_module k f ld)) \<le> 4"
  using assms by (simp add: run_module_score split: option.splits)

lemma run_module_ads_zero: "fst (fst (run_module k calculate_ads_score ld)) = 0"
  by (simp add: run_module_score calculate_ads_score_zero split: option.splits)

text \<open>
  Claim C1. For every mapping of loaded report tables, the total score returned by
  \<open>calculate_total_score\<close> is exactly the sum of the five module scores, and it lies
  between 0 and 20.
\<close>

theorem total_score_sum_and_range:
  "total_score (fst (calculate_total_score ld)) =
     trend_score (fst (calculate_total_score ld)) + query_score (fst (calculate_total_score ld))
     + price_score (fst (calculate_total_score ld)) + stock_score (fst (calculate_total_score ld))
     + ads_score (fst (calculate_total_score ld))
   \<and> 0 \<le> total_score (fst (calculate_total_score ld))
   \<and> total_score (fst (calculate_total_score ld)) \<le> 20"
proof -
  obtain ts ta ld1 where 1: "run_module ''trends'' calculate_trend_score ld = ((ts, ta), ld1)"
    by (metis prod.exhaust)
  obtain qs qa ld2 where 2: "run_module ''queries'' calculate_query_score ld1 = ((qs, qa), ld2)"
    by (metis prod.exhaust)
  obtain ps pa ld3 where 3: "run_module ''price'' calculate_price_score ld2 = ((ps, pa), ld3)"
    by (metis prod.exhaust)
  obtain ss sa ld4 where 4: "run_module ''days'' calculate_stock_score ld3 = ((ss, sa), ld4)"
    by (metis prod.exhaust)
  obtain as aa ld5 where 5: "run_module ''products'' calculate_ads_score ld4 = ((as, aa), ld5)"
    by (metis prod.exhaust)
  have "0 \<le> ts \<and> ts \<le> 4"
    using run_module_range[of calculate_trend_score "''trends''" ld, OF calculate_trend_score_range] 1
    by simp
  moreover have "0 \<le> qs \<and> qs \<le> 4"
    using run_module_range[of calculate_query_score "''queries''" ld1, OF calculate_query_score_range] 2
    by simp
  moreover have "0 \<le> ps \<and> ps \<le> 4"
    using run_module_range[of calculate_price_score "''price''" ld2, OF calculate_price_score_range] 3
    by simp
  moreover have "0 \<le> ss \<and> ss \<le> 4"
    using run_module_range[of calculate_stock_score "''days''" ld3, OF calculate_stock_score_range] 4
    by simp
  moreover have "as = 0"
    using run_module_ads_zero[of "''products''" ld4] 5 by simp
  ultimately show ?thesis
    using 1 2 3 4 5 by (simp add: calculate_total_score_def Let_def)
qed

lemma map_of_put:
  "map_of (put k df ld) k' = (if k' = k \<and> map_of ld k \<noteq> None then Some df else map_of ld k')"
  by (induction ld) auto

lemma run_module_store:
  "map_of (snd (run_module k f ld)) k' =
     (if k' = k then map_option (\<lambda>df. snd (f df)) (map_of ld k) else map_of ld k')"
  by (cases "map_of ld k"; cases "f (the (map_of ld k))") (auto simp: run_module_def map_of_put)

lemma run_module_analysis:
  "snd (fst (run_module k f ld)) = map_option (\<lambda>df. snd (fst (f df))) (map_of ld k)"
  by (cases "map_of ld k"; cases "f (the (map_of ld k))") (auto simp: run_module_def)

lemma module_scores:
  "trend_score (fst (calculate_total_score ld)) =
     (case map_of ld ''trends'' of None \<Rightarrow> 0 | Some df \<Rightarrow> fst (fst (calculate_trend_score df)))"
  "query_score (fst (calculate_total_score ld)) =
     (case map_of ld ''queries'' of None \<Rightarrow> 0 | Some df \<Rightarrow> fst (fst (calculate_query_score df)))"
  "price_score (fst (calculate_total_score ld)) =
     (case map_of ld ''price'' of None \<Rightarrow> 0 | Some df \<Rightarrow> fst (fst (calculate_price_score df)))"
  "stock_score (fst (calculate_total_score ld)) =
     (case map_of ld ''days'' of None \<Rightarrow> 0 | Some df \<Rightarrow> fst (fst (calculate_stock_score df)))"
  "ads_score (fst (calculate_total_score ld)) =
     (case map_of ld ''products'' of None \<Rightarrow> 0 | Some df \<Rightarrow> fst (fst (calculate_ads_score df)))"
  by (simp_all add: calculate_total_score_def case_prod_beta Let_def run_module_score
        run_module_store)

lemma queries_example_score: "fst (fst (calculate_query_score queries_example)) = 4"
  by (simp add: calculate_query_score_def queries_example_def Let_def count_where_def fge_def
        query_efficiency_score_def)

theorem total_score_sum_and_range_witness:
  "total_score (fst (calculate_total_score [(''queries'', queries_example)])) = 4
   \<and> 0 \<le> total_score (fst (calculate_total_score [(''queries'', queries_example)]))
   \<and> total_score (fst (calculate_total_score [(''queries'', queries_example)])) \<le> 20"
  using total_score_sum_and_range[of "[(''queries'', queries_example)]"]
  by (simp add: module_scores queries_example_score)

text \<open>
  Claim C4. The niche rating is total and its ranges do not overlap: a composite score
  in 1 to 5 is rated poor, 6 to 10 average, 11 to 15 good, 16 to 20 excellent, each by
  exactly one range of the table; a score outside every range (such as 0) is held by no
  range and gets the fallback rating poor.
\<close>

theorem niche_rating_total:
  "(1 \<le> s \<and> s \<le> 5 \<longrightarrow> get_niche_rating s = poor \<and> ranges_holding s = [(poor, 1, 5)])
   \<and> (6 \<le> s \<and> s \<le> 10 \<longrightarrow> get_niche_rating s = average \<and> ranges_holding s = [(average, 6, 10)])
   \<and> (11 \<le> s \<and> s \<le> 15 \<longrightarrow> get_niche_rating s = good \<and> ranges_holding s = [(good, 11, 15)])
   \<and> (16 \<le> s \<and> s \<le> 20 \<longrightarrow>
        get_niche_rating s = excellent \<and> ranges_holding s = [(excellent, 16, 20)])
   \<and> (s < 1 \<or> 20 < s \<longrightarrow> get_niche_rating s = poor \<and> ranges_holding s = [])
   \<and> length (ranges_holding s) \<le> 1"
  by (simp add: get_niche_rating_def ranges_holding_def TOTAL_SCORE_RANGES_def)

theorem niche_rating_total_witness:
  "get_niche_rating 0 = poor \<and> ranges_holding 0 = []
   \<and> get_niche_rating 13 = good \<and> ranges_holding 13 = [(good, 11, 15)]"
  using niche_rating_total[of 0] niche_rating_total[of 13] by simp

lemma days_example_stock:
  "fst (calculate_stock_score days_example) =
     (4, \<lparr>s_peak_stock_months = [(2024, 1, Some 5)], s_coefficient_variation = Some 0,
          s_zero_stock_ratio = Some 0, s_score = 4, s_error = None\<rparr>)"
proof -
  have a: "stock_add_columns days_example =
     Inr (setcol (setcol days_example God (NumCol [Some 2024, Some 2024]))
            Mesyats (NumCol [Some 1, Some 1]))"
    by (simp add: stock_add_columns_def days_example_def getcol_def andthen_def dt_year_def
        dt_month_def)
  have b: "stock_peaks (setcol (setcol days_example God (NumCol [Some 2024, Some 2024]))
            Mesyats (NumCol [Some 1, Some 1])) = Inr ([Some 5, Some 5], [(2024, 1, Some 5)])"
    by (simp add: stock_peaks_def getcol_def andthen_def setcol_def days_example_def
        unique_def present_def year_stock_peak_def feq_def group_means_def group_keys_def
        nanmean_def mean_def select_def idxmax_def maximum_def Let_def)
  have c: "cv_stock [Some 5, Some 5] = Some 0"
    by (simp add: cv_stock_def nanmean_def nanstd_def mean_def present_def fgt_def Let_def)
  have d: "zero_stock_ratio (setcol (setcol days_example God (NumCol [Some 2024, Some 2024]))
            Mesyats (NumCol [Some 1, Some 1])) [Some 5, Some 5] = Some 0"
    by (simp add: zero_stock_ratio_def setcol_def days_example_def count_where_def feq_def)
  have e: "stock_threshold_score (Some 0) (Some 0) = 4"
    by (simp add: stock_threshold_score_def flt_def)
  show ?thesis
    by (simp add: calculate_stock_score_def a b c d e Let_def) (simp add: days_example_def)
qed

lemma days_out_of_stock_stock:
  "fst (calculate_stock_score days_out_of_stock) =
     (1, \<lparr>s_peak_stock_months = [(2024, 1, Some 0)], s_coefficient_variation = Some 0,
          s_zero_stock_ratio = Some 100, s_score = 1, s_error = None\<rparr>)"
proof -
  have a: "stock_add_columns days_out_of_stock =
     Inr (setcol (setcol days_out_of_stock God (NumCol [Some 2024, Some 2024]))
            Mesyats (NumCol [Some 1, Some 1]))"
    by (simp add: stock_add_columns_def days_out_of_stock_def getcol_def andthen_def dt_year_def
        dt_month_def)
  have b: "stock_peaks (setcol (setcol days_out_of_stock God (NumCol [Some 2024, Some 2024]))
            Mesyats (NumCol [Some 1, Some 1])) = Inr ([Some 0, Some 0], [(2024, 1, Some 0)])"
    by (simp add: stock_peaks_def getcol_def andthen_def setcol_def days_out_of_stock_def
        unique_def present_def year_stock_peak_def feq_def group_means_def group_keys_def
        nanmean_def mean_def select_def idxmax_def maximum_def Let_def)
  have c: "cv_stock [Some 0, Some 0] = Some 0"
    by (simp add: cv_stock_def nanmean_def mean_def present_def fgt_def Let_def)
  have d: "zero_stock_ratio (setcol (setcol days_out_of_stock God (NumCol [Some 2024, Some 2024]))
            Mesyats (NumCol [Some 1, Some 1])) [Some 0, Some 0] = Some 100"
    by (simp add: zero_stock_ratio_def setcol_def days_out_of_stock_def count_where_def feq_def)
  have e: "stock_threshold_score (Some 0) (Some 100) = 1"
    by (simp add: stock_threshold_score_def flt_def)
  show ?thesis
    by (simp add: calculate_stock_score_def a b c d e Let_def) (simp add: days_out_of_stock_def)
qed

text \<open>
  Claim C6, as stated, fails. The bucket chain of the stock module is a threshold
  function too, and it is not non-decreasing: of two daily-stock reports with the same
  coefficient of variation 0, the one with no day out of stock (ratio 0) scores 4 and the
  one with every day out of stock (ratio 100) scores 1.
\<close>

theorem stock_score_not_monotone_counterexample:
  "fle2 (Some 0) (Some 0) \<and> fle2 (Some 0) (Some 100)
   \<and> stock_threshold_score (Some 0) (Some 0) = 4
   \<and> stock_threshold_score (Some 0) (Some 100) = 1
   \<and> s_coefficient_variation (snd (fst (calculate_stock_score days_example))) = Some 0
   \<and> s_zero_stock_ratio (snd (fst (calculate_stock_score days_example))) = Some 0
   \<and> fst (fst (calculate_stock_score days_example)) = 4
   \<and> s_coefficient_variation (snd (fst (calculate_stock_score days_out_of_stock))) = Some 0
   \<and> s_zero_stock_ratio (snd (fst (calculate_stock_score days_out_of_stock))) = Some 100
   \<and> fst (fst (calculate_stock_score days_out_of_stock)) = 1"
  by (simp add: days_example_stock days_out_of_stock_stock fle2_def fle_def
        stock_threshold_score_def flt_def)

text \<open>
  Claim C6, amended. Every threshold function returns a value in 0 to 4 on every input,
  NaN included. The ads ratio score, the query efficiency buckets and the year-over-year
  buckets are non-decreasing in the ratio: if \<open>r1 <= r2\<close> holds for two floats, the score
  of \<open>r1\<close> is at most the score of \<open>r2\<close>. The price buckets are non-decreasing in the
  number of low-competition segments. The stock buckets are non-increasing in the
  coefficient of variation and in the share of days out of stock: if both grow, the score
  does not.
\<close>

theorem threshold_scores_monotone:
  "get_ratio_score r \<in> {0, 1, 2, 3, 4}
   \<and> query_efficiency_score r \<in> {0, 1, 2, 3, 4}
   \<and> yoy_change_score r \<in> {0, 1, 2, 3, 4}
   \<and> price_count_score n \<in> {0, 1, 2, 3, 4}
   \<and> stock_threshold_score cv zr \<in> {0, 1, 2, 3, 4}
   \<and> (fle2 r1 r2 \<longrightarrow> get_ratio_score r1 \<le> get_ratio_score r2
         \<and> query_efficiency_score r1 \<le> query_efficiency_score r2
         \<and> yoy_change_score r1 \<le> yoy_change_score r2)
   \<and> (n1 \<le> n2 \<longrightarrow> price_count_score n1 \<le> price_count_score n2)
   \<and> (fle2 cv1 cv2 \<and> fle2 zr1 zr2 \<longrightarrow>
         stock_threshold_score cv2 zr2 \<le> stock_threshold_score cv1 zr1)"
proof -
  have a: "get_ratio_score r \<in> {0, 1, 2, 3, 4} \<and> query_efficiency_score r \<in> {0, 1, 2, 3, 4}
     \<and> yoy_change_score r \<in> {0, 1, 2, 3, 4}"
    by (simp add: get_ratio_score_def query_efficiency_score_def yoy_change_score_def)
  have b: "price_count_score n \<in> {0, 1, 2, 3, 4} \<and> stock_threshold_score cv zr \<in> {0, 1, 2, 3, 4}"
    by (simp add: price_count_score_def stock_threshold_score_def)
  have c: "fle2 r1 r2 \<longrightarrow> get_ratio_score r1 \<le> get_ratio_score r2
         \<and> query_efficiency_score r1 \<le> query_efficiency_score r2
         \<and> yoy_change_score r1 \<le> yoy_change_score r2"
    by (cases r1; cases r2)
       (simp_all add: get_ratio_score_def query_efficiency_score_def yoy_change_score_def
          fge_def fle2_def fle_def ADS_THRESHOLDS_def TREND_THRESHOLDS_def)
  have d: "n1 \<le> n2 \<longrightarrow> price_count_score n1 \<le> price_count_score n2"
    by (simp add: price_count_score_def)
  have e: "fle2 cv1 cv2 \<and> fle2 zr1 zr2 \<longrightarrow>
         stock_threshold_score cv2 zr2 \<le> stock_threshold_score cv1 zr1"
  proof (rule impI)
    assume h: "fle2 cv1 cv2 \<and> fle2 zr1 zr2"
    then obtain a b x y where v: "cv1 = Some a" "cv2 = Some b" "zr1 = Some x" "zr2 = Some y"
      and le: "a \<le> b" "x \<le> y"
      by (cases cv1; cases cv2; cases zr1; cases zr2) (auto simp: fle2_def fle_def)
    have f: "flt cv2 t \<Longrightarrow> flt cv1 t" "flt zr2 t \<Longrightarrow> flt zr1 t" for t
      using v le by (simp_all add: flt_def)
    show "stock_threshold_score cv2 zr2 \<le> stock_threshold_score cv1 zr1"
      unfolding stock_threshold_score_def using f by auto
  qed
  from a b c d e show ?thesis by (intro conjI) simp_all
qed

theorem threshold_scores_monotone_witness:
  "fle2 (Some (3/2)) (Some 5) \<and> get_ratio_score (Some (3/2)) \<le> get_ratio_score (Some 5)
   \<and> get_ratio_score (Some (3/2)) = 1 \<and> get_ratio_score (Some 5) = 4
   \<and> price_count_score 1 \<le> price_count_score 3
   \<and> fle2 (Some 0) (Some 0) \<and> fle2 (Some 0) (Some 100)
   \<and> stock_threshold_score (Some 0) (Some 100) \<le> stock_threshold_score (Some 0) (Some 0)"
proof -
  have h: "fle2 (Some (3/2)) (Some 5)" "fle2 (Some 0) (Some 0)" "fle2 (Some 0) (Some 100)"
    by (simp_all add: fle2_def fle_def)
  have v: "get_ratio_score (Some (3/2)) = 1 \<and> get_ratio_score (Some 5) = 4"
    by (simp add: get_ratio_score_def fge_def ADS_THRESHOLDS_def)
  have n: "(1::nat) \<le> 3" by simp
  from threshold_scores_monotone[of "Some 5" 0 "Some 0" "Some 0" "Some (3/2)" "Some 5" 1 3
      "Some 0" "Some 0" "Some 0" "Some 100"] h v n
  show ?thesis by blast
qed

text \<open>
  Claim C2, evaluated on the code. On a products table whose top-10 group has the
  price-to-CPM ratio 5 and whose top-100 group has the ratio 1.5, both groups non-empty,
  \<open>_calculate_ads_score\<close> returns the score 0 with the marker of a caught \<open>NameError\<close>,
  whereas the minimum of the two ratio scores is 1.
\<close>

theorem ads_score_cmp_name_slip:
  "fst (calculate_ads_score products_example)
     = (0, \<lparr>a_score = Some 0, a_error = Some (Raised NameError)\<rparr>)
   \<and> ads_final_score (Some 5) (Some (3/2)) = 1"
  by (simp add: calculate_ads_score_def products_example_def andthen_def getcol_def
        df_select_def select_def fle_def Let_def ads_ratio_top10_def avg_cmp_top10_def
        ads_final_score_def get_ratio_score_def fge_def ADS_THRESHOLDS_def)

lemma calculate_trend_score_leaves:
  "snd (calculate_trend_score df) =
     (case cols df Mesyats of
        Some (DateCol ds) \<Rightarrow> setcol (setcol df God (dt_year ds)) Mesyats_nomer (dt_month ds)
      | _ \<Rightarrow> df)"
  by (simp add: calculate_trend_score_def trend_add_columns_def getcol_def andthen_def Let_def
        split: option.splits column.splits sum.splits)

lemma calculate_query_score_leaves: "snd (calculate_query_score df) = df"
  by (simp add: calculate_query_score_def Let_def split: option.splits sum.splits)

lemma calculate_price_score_leaves: "snd (calculate_price_score df) = df"
  by (simp add: calculate_price_score_def Let_def split: option.splits sum.splits prod.splits)

lemma calculate_stock_score_leaves:
  "snd (calculate_stock_score df) =
     (if cols df Ostatok = None then df
      else case cols df Data of
             Some (DateCol ds) \<Rightarrow> setcol (setcol df God (dt_year ds)) Mesyats (dt_month ds)
           | _ \<Rightarrow> df)"
  by (simp add: calculate_stock_score_def stock_add_columns_def getcol_def andthen_def Let_def
        split: option.splits column.splits sum.splits prod.splits)

lemma calculate_ads_score_leaves: "snd (calculate_ads_score df) = df"
  by (simp add: calculate_ads_score_def Let_def split: option.splits sum.splits prod.splits)

lemma loaded_after_scoring:
  "map_of (snd (calculate_total_score ld)) k =
     (if k = ''trends'' then map_option (\<lambda>df. snd (calculate_trend_score df)) (map_of ld k)
      else if k = ''days'' then map_option (\<lambda>df. snd (calculate_stock_score df)) (map_of ld k)
      else map_of ld k)"
  by (simp add: calculate_total_score_def case_prod_beta Let_def run_module_store
        calculate_query_score_leaves calculate_price_score_leaves calculate_ads_score_leaves
        option.map_ident)


lemma map_fst_put: "map fst (put k df ld) = map fst ld"
  by (induction ld) auto

lemma run_module_keys: "map fst (snd (run_module k f ld)) = map fst ld"
  by (cases "map_of ld k"; cases "f (the (map_of ld k))") (auto simp: run_module_def map_fst_put)

lemma keys_after_scoring: "map fst (snd (calculate_total_score ld)) = map fst ld"
  by (simp add: calculate_total_score_def case_prod_beta Let_def run_module_keys)

lemma setcol_simps:
  "nrows (setcol df c v) = nrows df"
  "cols (setcol df c v) c' = (if c' = c then Some v else cols df c')"
  by (simp_all add: setcol_def)

lemma setcol_same: "cols df c = Some v \<Longrightarrow> setcol df c v = df"
  by (simp add: setcol_def fun_upd_idem)

text \<open>
  Claim C9, evaluated on the code. On a loaded trends table that has the date column
  \<open>Mesyats\<close> and no \<open>God\<close> column (such as the sample data of the uploader),
  \<open>calculate_total_score\<close> leaves a different table to its caller: the columns \<open>God\<close> and
  \<open>Mesyats_nomer\<close> have been assigned on the input table itself.
\<close>

theorem scoring_assigns_columns_in_place:
  "snd (calculate_total_score [(''trends'', trends_example)]) \<noteq> [(''trends'', trends_example)]
   \<and> cols trends_example God = None
   \<and> cols (the (map_of (snd (calculate_total_score [(''trends'', trends_example)])) ''trends'')) God
       = Some (NumCol [Some 2024, Some 2024])
   \<and> cols trends_example Mesyats_nomer = None
   \<and> cols (the (map_of (snd (calculate_total_score [(''trends'', trends_example)])) ''trends''))
        Mesyats_nomer = Some (NumCol [Some 1, Some 2])"
proof -
  have c: "cols trends_example Mesyats_nomer = None"
    by (simp add: trends_example_def)
  have d: "cols (the (map_of (snd (calculate_total_score [(''trends'', trends_example)])) ''trends''))
        Mesyats_nomer = Some (NumCol [Some 1, Some 2])"
    by (simp add: loaded_after_scoring calculate_trend_score_leaves trends_example_def
          setcol_simps dt_month_def)
  have a: "cols trends_example God = None"
    by (simp add: trends_example_def)
  have b: "cols (the (map_of (snd (calculate_total_score [(''trends'', trends_example)])) ''trends'')) God
       = Some (NumCol [Some 2024, Some 2024])"
    by (simp add: loaded_after_scoring calculate_trend_score_leaves trends_example_def
          setcol_simps dt_year_def)
  have "snd (calculate_total_score [(''trends'', trends_example)]) \<noteq> [(''trends'', trends_example)]"
  proof
    assume "snd (calculate_total_score [(''trends'', trends_example)]) = [(''trends'', trends_example)]"
    with b have "cols trends_example God = Some (NumCol [Some 2024, Some 2024])" by simp
    with a show False by simp
  qed
  with a b c d show ?thesis by simp
qed

text \<open>
  The extent of the assignment. \<open>calculate_total_score\<close> keeps the keys of the loaded data
  and hands back every table other than the trends and the daily-stock table as it got
  it. On the trends table it assigns the columns \<open>God\<close> and \<open>Mesyats_nomer\<close> (the year and
  month of a datetime \<open>Mesyats\<close>), on the daily-stock table \<open>God\<close> and \<open>Mesyats\<close> (the year
  and month of a datetime \<open>Data\<close>, when \<open>Ostatok\<close> exists), and nothing else.
\<close>

lemma scoring_assigns_only_helper_columns:
  "map fst (snd (calculate_total_score ld)) = map fst ld
   \<and> (k \<noteq> ''trends'' \<and> k \<noteq> ''days'' \<longrightarrow> map_of (snd (calculate_total_score ld)) k = map_of ld k)
   \<and> (map_of ld ''trends'' = Some df \<longrightarrow>
        (\<exists>df'. map_of (snd (calculate_total_score ld)) ''trends'' = Some df'
           \<and> nrows df' = nrows df
           \<and> (\<forall>c. c \<noteq> God \<and> c \<noteq> Mesyats_nomer \<longrightarrow> cols df' c = cols df c)
           \<and> (\<forall>ds. cols df Mesyats = Some (DateCol ds) \<longrightarrow>
                 cols df' God = Some (dt_year ds) \<and> cols df' Mesyats_nomer = Some (dt_month ds)
                 \<and> (cols df God = Some (dt_year ds) \<and> cols df Mesyats_nomer = Some (dt_month ds)
                      \<longrightarrow> df' = df))
           \<and> ((\<forall>ds. cols df Mesyats \<noteq> Some (DateCol ds)) \<longrightarrow> df' = df)))
   \<and> (map_of ld ''days'' = Some sd \<longrightarrow>
        (\<exists>sd'. map_of (snd (calculate_total_score ld)) ''days'' = Some sd'
           \<and> nrows sd' = nrows sd
           \<and> (\<forall>c. c \<noteq> God \<and> c \<noteq> Mesyats \<longrightarrow> cols sd' c = cols sd c)
           \<and> (\<forall>ds. cols sd Ostatok \<noteq> None \<and> cols sd Data = Some (DateCol ds) \<longrightarrow>
                 cols sd' God = Some (dt_year ds) \<and> cols sd' Mesyats = Some (dt_month ds)
                 \<and> (cols sd God = Some (dt_year ds) \<and> cols sd Mesyats = Some (dt_month ds)
                      \<longrightarrow> sd' = sd))
           \<and> (cols sd Ostatok = None \<or> (\<forall>ds. cols sd Data \<noteq> Some (DateCol ds)) \<longrightarrow> sd' = sd)))"
proof (intro conjI impI)
  show "map fst (snd (calculate_total_score ld)) = map fst ld"
    by (rule keys_after_scoring)
next
  assume "k \<noteq> ''trends'' \<and> k \<noteq> ''days''"
  then show "map_of (snd (calculate_total_score ld)) k = map_of ld k"
    by (simp add: loaded_after_scoring)
next
  assume t: "map_of ld ''trends'' = Some df"
  show "\<exists>df'. map_of (snd (calculate_total_score ld)) ''trends'' = Some df'
           \<and> nrows df' = nrows df
           \<and> (\<forall>c. c \<noteq> God \<and> c \<noteq> Mesyats_nomer \<longrightarrow> cols df' c = cols df c)
           \<and> (\<forall>ds. cols df Mesyats = Some (DateCol ds) \<longrightarrow>
                 cols df' God = Some (dt_year ds) \<and> cols df' Mesyats_nomer = Some (dt_month ds)
                 \<and> (cols df God = Some (dt_year ds) \<and> cols df Mesyats_nomer = Some (dt_month ds)
                      \<longrightarrow> df' = df))
           \<and> ((\<forall>ds. cols df Mesyats \<noteq> Some (DateCol ds)) \<longrightarrow> df' = df)"
    using t
    by (auto simp: loaded_after_scoring calculate_trend_score_leaves setcol_simps setcol_same
          split: option.splits column.splits)
next
  assume d: "map_of ld ''days'' = Some sd"
  show "\<exists>sd'. map_of (snd (calculate_total_score ld)) ''days'' = Some sd'
           \<and> nrows sd' = nrows sd
           \<and> (\<forall>c. c \<noteq> God \<and> c \<noteq> Mesyats \<longrightarrow> cols sd' c = cols sd c)
           \<and> (\<forall>ds. cols sd Ostatok \<noteq> None \<and> cols sd Data = Some (DateCol ds) \<longrightarrow>
                 cols sd' God = Some (dt_year ds) \<and> cols sd' Mesyats = Some (dt_month ds)
                 \<and> (cols sd God = Some (dt_year ds) \<and> cols sd Mesyats = Some (dt_month ds)
                      \<longrightarrow> sd' = sd))
           \<and> (cols sd Ostatok = None \<or> (\<forall>ds. cols sd Data \<noteq> Some (DateCol ds)) \<longrightarrow> sd' = sd)"
    using d
    by (auto simp: loaded_after_scoring calculate_stock_score_leaves setcol_simps setcol_same
          split: option.splits column.splits)
qed


lemma length_select_le: "length (select keep xs) \<le> length xs"
  by (simp add: select_def) (metis length_filter_le length_zip min.cobounded2 order_trans)

lemma length_group_means: "length (group_means ks vs) = length (group_keys ks)"
  by (simp add: group_means_def)

lemma yoy_single_year:
  assumes "cols df God = Some (NumCol ys)" and "length (group_keys ys) < 2"
    and "cols df c = Some (NumCol vs) \<or> cols df c = Some (DateCol ds)"
  shows "calculate_yoy_score df c = (2, Insufficient_data)"
  using assms
  by (auto simp: calculate_yoy_score_def getcol_def andthen_def Let_def length_group_means)


lemma trends_example_after:
  "trend_add_columns trends_example =
     Inr (setcol (setcol trends_example God (NumCol [Some 2024, Some 2024]))
            Mesyats_nomer (NumCol [Some 1, Some 2]))"
  by (simp add: trend_add_columns_def trends_example_def getcol_def andthen_def dt_year_def
        dt_month_def)

lemma trends_example_peak:
  "peak_months (setcol (setcol trends_example God (NumCol [Some 2024, Some 2024]))
            Mesyats_nomer (NumCol [Some 1, Some 2])) = Inr [(2024, Some 2)]"
  by (simp add: peak_months_def getcol_def andthen_def setcol_def trends_example_def
        unique_def present_def year_peak_def df_select_def feq_def
        select_def idxmax_def maximum_def Let_def)


text \<open>The peak-month lookup on a sales column that holds text: the largest string.\<close>

lemma trends_text_sales_peak:
  "peak_months (setcol (setcol trends_text_sales God (NumCol [Some 2024, Some 2024]))
            Mesyats_nomer (NumCol [Some 1, Some 2])) = Inr [(2024, Some 2)]"
  by (simp add: peak_months_def getcol_def andthen_def setcol_def trends_text_sales_def
        unique_def present_def year_peak_def df_select_def feq_def
        select_def idxmax_by_def maximum_by_def Let_def)













lemma length_select_same:
  "length ms = length keep \<Longrightarrow> length (select keep xs) \<le> length (select keep ms)"
proof (induction keep arbitrary: xs ms)
  case Nil
  then show ?case by (simp add: select_def)
next
  case (Cons k keep)
  then obtain m ms' where m: "ms = m # ms'" "length ms' = length keep" by (cases ms) auto
  show ?case
  proof (cases xs)
    case Nil
    then show ?thesis by (simp add: select_def)
  next
    case (Cons x xs')
    from Cons.IH[OF m(2), of xs'] show ?thesis using m Cons by (simp add: select_def)
  qed
qed











lemma validate_trends_data_leaves: "snd (validate_trends_data df) = df"
  by (simp add: validate_trends_data_def split: prod.splits)

lemma validate_queries_data_leaves: "snd (validate_queries_data df) = df"
  by (simp add: validate_queries_data_def split: prod.splits sum.splits option.splits)

lemma validate_price_data_leaves: "snd (validate_price_data df) = df"
  by (simp add: validate_price_data_def split: prod.splits sum.splits)

lemma validate_days_data_leaves: "snd (validate_days_data df) = df"
  by (simp add: validate_days_data_def split: prod.splits)

lemma validate_products_data_leaves: "snd (validate_products_data df) = df"
  by (simp add: validate_products_data_def split: prod.splits sum.splits option.splits)

lemma validate_by_type_leaves: "snd (validate_by_type df data_type) = df"
  by (simp add: validate_by_type_def validate_trends_data_leaves validate_queries_data_leaves
        validate_price_data_leaves validate_days_data_leaves validate_products_data_leaves)

lemma validate_all_data_leaves: "snd (validate_all_data ld) = ld"
proof (induction ld)
  case Nil
  then show ?case by simp
next
  case (Cons item rest)
  obtain data_type df where item: "item = (data_type, df)" by (cases item)
  obtain r df' where v: "validate_by_type df data_type = (r, df')" by (cases "validate_by_type df data_type")
  with validate_by_type_leaves[of df data_type] have df': "df' = df" by simp
  obtain rs rest' where a: "validate_all_data rest = (rs, rest')" by (cases "validate_all_data rest")
  with Cons.IH have rest': "rest' = rest" by simp
  show ?case
    by (simp add: item v df' a rest' split: sum.splits)
qed

lemma validate_all_data_keys:
  "fst (validate_all_data ld) = Inr rs \<Longrightarrow> map fst rs = map fst ld"
proof (induction ld arbitrary: rs)
  case Nil
  then show ?case by simp
next
  case (Cons item rest)
  obtain data_type df where item: "item = (data_type, df)" by (cases item)
  obtain r df' where v: "validate_by_type df data_type = (r, df')" by (cases "validate_by_type df data_type")
  obtain rs' rest' where a: "validate_all_data rest = (rs', rest')" by (cases "validate_all_data rest")
  from Cons.prems obtain x xs where r: "r = Inr x" and rs': "rs' = Inr xs" and rs: "rs = (data_type, x) # xs"
    by (auto simp: item v a split: sum.splits)
  from Cons.IH[of xs] a rs' have "map fst xs = map fst rest" by simp
  then show ?case by (simp add: rs item)
qed

lemma validate_by_type_classifies:
  "fst (validate_by_type df data_type) = Inr r \<Longrightarrow> valid r = (errors r = [])"
  by (auto simp: validate_by_type_def validate_trends_data_def validate_queries_data_def
        validate_price_data_def validate_days_data_def validate_products_data_def
        split: prod.splits sum.splits option.splits if_splits)

lemma validate_all_data_classifies:
  "fst (validate_all_data ld) = Inr rs \<Longrightarrow> \<forall>(k, r) \<in> set rs. valid r = (errors r = [])"
proof (induction ld arbitrary: rs)
  case Nil
  then show ?case by simp
next
  case (Cons item rest)
  obtain data_type df where item: "item = (data_type, df)" by (cases item)
  obtain r df' where v: "validate_by_type df data_type = (r, df')" by (cases "validate_by_type df data_type")
  obtain rs' rest' where a: "validate_all_data rest = (rs', rest')" by (cases "validate_all_data rest")
  from Cons.prems obtain x xs where r: "r = Inr x" and rs': "rs' = Inr xs" and rs: "rs = (data_type, x) # xs"
    by (auto simp: item v a split: sum.splits)
  from Cons.IH[of xs] a rs' have "\<forall>(k, r) \<in> set xs. valid r = (errors r = [])" by simp
  moreover from validate_by_type_classifies[of df data_type x] v r
  have "valid x = (errors x = [])" by simp
  ultimately show ?case by (simp add: rs)
qed

text \<open>
  Claim C8. \<open>validate_all_data\<close> leaves every table of the loaded data as it was, also
  when a validator raises; when it returns, its result has one entry per report, in
  order, and each entry is a classification: valid exactly when its error list is empty.
\<close>

theorem validation_leaves_tables_unchanged:
  "snd (validate_all_data ld) = ld
   \<and> (fst (validate_all_data ld) = Inr rs \<longrightarrow>
        map fst rs = map fst ld \<and> (\<forall>(k, r) \<in> set rs. valid r = (errors r = [])))"
  using validate_all_data_leaves validate_all_data_keys validate_all_data_classifies by blast

lemma days_example_validation:
  "validate_days_data days_example =
     (Inr \<lparr>valid = True, warnings = [], errors = [], records_count = 2,
           extra = Date_range (Some ((2024, 1, 1), (2024, 1, 2)))\<rparr>, days_example)"
proof -
  have d: "cols days_example Data = Some (DateCol [Some (2024, 1, 1), Some (2024, 1, 2)])"
    and o: "cols days_example Ostatok = Some (NumCol [Some 5, Some 5])"
    and n: "nrows days_example = 2"
    by (simp_all add: days_example_def)
  have o1: "toordinal (2024, 1, 1) = 739191" and o2: "toordinal (2024, 1, 2) = 739192"
    by (simp_all add: toordinal_def Let_def)
  have b: "days_body days_example ([], []) = (None, ([], []))"
    by (simp add: days_body_def seq_def check_required_def missing_cols_def days_required_def
          error_if_def when_present_def d o n check_dates_def warn_if_def isna_sum_def isna_all_def
          count_where_def present_def o1 o2 check_stock_def on_numeric_def flt_def feq_def
          Let_def skip_def)
  have r: "get_date_range days_example Data = Some ((2024, 1, 1), (2024, 1, 2))"
    by (simp add: get_date_range_def d present_def earliest_def latest_def o1 o2)
  show ?thesis
    by (simp add: validate_days_data_def run_try_def b r n)
qed

theorem validation_leaves_tables_unchanged_witness:
  "fst (validate_all_data [(''days'', days_example)]) =
     Inr [(''days'', \<lparr>valid = True, warnings = [], errors = [], records_count = 2,
           extra = Date_range (Some ((2024, 1, 1), (2024, 1, 2)))\<rparr>)]
   \<and> snd (validate_all_data [(''days'', days_example)]) = [(''days'', days_example)]"
proof -
  have "fst (validate_all_data [(''days'', days_example)]) =
     Inr [(''days'', \<lparr>valid = True, warnings = [], errors = [], records_count = 2,
           extra = Date_range (Some ((2024, 1, 1), (2024, 1, 2)))\<rparr>)]"
    by (simp add: validate_by_type_def days_example_validation)
  with validation_leaves_tables_unchanged[of "[(''days'', days_example)]"]
  show ?thesis by simp
qed

lemma keeps_seq: "keeps_warnings P s1 \<Longrightarrow> keeps_warnings P s2 \<Longrightarrow> keeps_warnings P (seq s1 s2)"
  unfolding keeps_warnings_def seq_def
  by (auto split: prod.splits option.splits) (metis fst_conv snd_conv)+

lemma keeps_skip: "keeps_warnings P skip"
  by (simp add: keeps_warnings_def skip_def)

lemma keeps_raise: "keeps_warnings P (raise ex)"
  by (simp add: keeps_warnings_def raise_def)

lemma keeps_warn_if: "P m \<Longrightarrow> keeps_warnings P (warn_if b m)"
  by (simp add: keeps_warnings_def warn_if_def)

lemma keeps_error_if: "keeps_warnings P (error_if b m)"
  by (simp add: keeps_warnings_def error_if_def)

lemma keeps_on_numeric: "(\<And>xs. keeps_warnings P (f xs)) \<Longrightarrow> keeps_warnings P (on_numeric c f)"
  by (simp add: on_numeric_def keeps_raise split: sum.splits)

lemma keeps_when_present: "(\<And>x. keeps_warnings P (f x)) \<Longrightarrow> keeps_warnings P (when_present df c f)"
  by (simp add: when_present_def keeps_skip split: option.splits)

lemma keeps_if: "keeps_warnings P s1 \<Longrightarrow> keeps_warnings P s2 \<Longrightarrow> keeps_warnings P (if b then s1 else s2)"
  by simp

lemmas keeps_rules = keeps_seq keeps_skip keeps_raise keeps_warn_if keeps_error_if
  keeps_on_numeric keeps_when_present keeps_if

lemma check_month_keeps:
  assumes "\<And>n. P (Invalid_dates n)" "P Short_period" "P Long_period"
  shows "keeps_warnings P (check_month c)"
  by (cases c) (auto intro!: keeps_rules assms simp: check_month_def Let_def)

lemma check_numeric_column_keeps:
  assumes "\<And>n. P (Negative_values n c)" "P (Many_zeros c)"
  shows "keeps_warnings P (check_numeric_column df c)"
  by (auto intro!: keeps_rules assms simp: check_numeric_column_def)

lemma check_products_consistency_keeps: "keeps_warnings P (check_products_consistency df)"
  by (auto intro!: keeps_rules simp: check_products_consistency_def split: sum.splits)

lemma trends_body_keeps:
  assumes "\<And>n. P (Invalid_dates n)" "P Short_period" "P Long_period"
    "\<And>n c. P (Negative_values n c)" "\<And>c. P (Many_zeros c)"
  shows "keeps_warnings P (trends_body df)"
  unfolding trends_body_def check_required_def
  by (intro keeps_seq keeps_error_if keeps_when_present check_month_keeps
        check_numeric_column_keeps check_products_consistency_keeps assms)

lemma check_valid_rows_keeps:
  assumes "\<And>n. P (Overlapping_ranges n)"
  shows "keeps_warnings P (check_valid_rows lt valid_rows)"
  by (auto intro!: keeps_rules assms simp: check_valid_rows_def Let_def)

lemma check_ranges_keeps:
  assumes "\<And>n. P (Overlapping_ranges n)"
  shows "keeps_warnings P (check_ranges a b)"
  by (auto intro!: keeps_rules check_valid_rows_keeps assms simp: check_ranges_def
        split: column.splits)

lemma check_revenue_keeps:
  assumes "\<And>n. P (Zero_revenue n)"
  shows "keeps_warnings P (check_revenue c)"
  by (auto intro!: keeps_rules assms simp: check_revenue_def)

lemma check_segments_consistency_keeps: "keeps_warnings P (check_segments_consistency df)"
  by (auto intro!: keeps_rules simp: check_segments_consistency_def split: sum.splits)

lemma price_body_keeps:
  assumes "\<And>n. P (Overlapping_ranges n)" "\<And>n. P (Zero_revenue n)"
  shows "keeps_warnings P (price_body df)"
  unfolding price_body_def
  by (intro keeps_seq keeps_when_present check_ranges_keeps check_revenue_keeps
        check_segments_consistency_keeps assms)

lemma run_try_warnings:
  "keeps_warnings P body \<Longrightarrow> list_all P (fst (run_try wrap body))"
proof -
  assume k: "keeps_warnings P body"
  obtain ex w e where b: "body ([], []) = (ex, (w, e))" by (metis prod.exhaust)
  from k have "list_all P (fst (snd (body ([], []))))"
    unfolding keeps_warnings_def by simp
  with b have "list_all P w" by simp
  with b show ?thesis by (cases ex) (simp_all add: run_try_def)
qed


lemma never_raises_seq: "never_raises s1 \<Longrightarrow> never_raises s2 \<Longrightarrow> never_raises (seq s1 s2)"
  unfolding never_raises_def seq_def
  by (auto split: prod.splits option.splits) (metis fst_conv option.distinct(1))

lemma never_raises_skip: "never_raises skip"
  by (simp add: never_raises_def skip_def)

lemma never_raises_warn_if: "never_raises (warn_if b m)"
  by (simp add: never_raises_def warn_if_def split: prod.splits)

lemma never_raises_error_if: "never_raises (error_if b m)"
  by (simp add: never_raises_def error_if_def split: prod.splits)

lemma never_raises_if: "never_raises s1 \<Longrightarrow> never_raises s2 \<Longrightarrow> never_raises (if b then s1 else s2)"
  by simp

lemmas never_raises_rules = never_raises_seq never_raises_skip never_raises_warn_if
  never_raises_error_if never_raises_if

lemma leaves_error_seq: "leaves_error s2 \<Longrightarrow> leaves_error (seq s1 s2)"
  unfolding leaves_error_def seq_def
  by (auto split: prod.splits option.splits)

lemma leaves_error_error_if: "leaves_error (error_if True m)"
  by (simp add: leaves_error_def error_if_def split: prod.splits)

lemma records_seq: "never_raises s1 \<Longrightarrow> records m s2 \<Longrightarrow> records m (seq s1 s2)"
  unfolding records_def never_raises_def seq_def
  by (auto split: prod.splits option.splits) (metis fst_conv option.distinct(1))

lemma records_error_if: "records m (error_if True m)"
  by (simp add: records_def error_if_def split: prod.splits)

lemma run_try_leaves_error: "leaves_error body \<Longrightarrow> snd (run_try wrap body) \<noteq> []"
proof -
  assume l: "leaves_error body"
  obtain ex w e where b: "body ([], []) = (ex, (w, e))" by (metis prod.exhaust)
  show ?thesis
  proof (cases ex)
    case None
    with l b have "e \<noteq> []" unfolding leaves_error_def by (metis fst_conv snd_conv)
    with None b show ?thesis by (simp add: run_try_def)
  next
    case (Some x)
    with b show ?thesis by (simp add: run_try_def)
  qed
qed

lemma run_try_records: "records m body \<Longrightarrow> m \<in> set (snd (run_try wrap body))"
proof -
  assume r: "records m body"
  obtain ex w e where b: "body ([], []) = (ex, (w, e))" by (metis prod.exhaust)
  from r b have "ex = None" and "m \<in> set e"
    unfolding records_def by (metis fst_conv, metis snd_conv)
  with b show ?thesis by (simp add: run_try_def)
qed

lemma count_greater_dropna:
  "count_greater (select (notna_both (NumCol ps) (NumCol ws)) ws)
     (select (notna_both (NumCol ps) (NumCol ws)) ps) = count_greater ws ps"
proof (induction ps ws rule: list_induct2')
  case (4 p ps w ws)
  then show ?case
    by (cases p; cases w)
       (simp_all add: count_greater_def count_where_def select_def notna_both_def fgt2_def fgt_def)
qed (simp_all add: count_greater_def count_where_def select_def notna_both_def)

lemma count_greater_notna:
  "count_greater ws ps \<le> count_where id (notna_both (NumCol ps) (NumCol ws))"
proof (induction ps ws rule: list_induct2')
  case (4 p ps w ws)
  then show ?case
    by (cases p; cases w)
       (simp_all add: count_greater_def count_where_def notna_both_def fgt2_def fgt_def)
qed (simp_all add: count_greater_def count_where_def notna_both_def)


lemma check_products_consistency_inconsistent:
  assumes "cols df Tovary = Some (NumCol ps)" "cols df Tovary_s_prodazhami = Some (NumCol ws)"
    "0 < count_greater ws ps"
  shows "check_products_consistency df = error_if True (Inconsistent_products (count_greater ws ps))"
  using assms by (simp add: check_products_consistency_def when_present_def)

lemma check_segments_consistency_inconsistent:
  assumes "cols df Tovary = Some (NumCol ps)" "cols df Tovary_s_prodazhami = Some (NumCol ws)"
    "0 < count_greater ws ps"
  shows "check_segments_consistency df = error_if True (Inconsistent_segments (count_greater ws ps))"
proof -
  from assms(3) count_greater_notna[of ws ps]
  have "count_where id (notna_both (NumCol ps) (NumCol ws)) \<noteq> 0" by simp
  with assms show ?thesis
    by (simp add: check_segments_consistency_def when_present_def count_greater_dropna)
qed

lemma check_month_never_raises: "never_raises (check_month (DateCol ds))"
  by (auto intro!: never_raises_rules simp: check_month_def Let_def)

lemma when_present_never_raises:
  "cols df c = None \<or> (\<exists>x. cols df c = Some x \<and> never_raises (f x))
     \<Longrightarrow> never_raises (when_present df c f)"
  by (auto simp: when_present_def never_raises_skip)

lemma check_numeric_column_never_raises:
  "cols df c = None \<or> (\<exists>xs. cols df c = Some (NumCol xs))
     \<Longrightarrow> never_raises (check_numeric_column df c)"
  by (auto intro!: never_raises_rules simp: check_numeric_column_def when_present_def on_numeric_def)

lemma check_ranges_never_raises: "never_raises (check_ranges (NumCol fs) (NumCol ts))"
  by (auto intro!: never_raises_rules simp: check_ranges_def check_valid_rows_def Let_def)

lemma check_revenue_never_raises: "never_raises (check_revenue (NumCol rs))"
  by (auto intro!: never_raises_rules simp: check_revenue_def on_numeric_def)

lemma trends_inconsistent_invalid:
  assumes "cols df Tovary = Some (NumCol ps)" "cols df Tovary_s_prodazhami = Some (NumCol ws)"
    "0 < count_greater ws ps"
  shows "\<exists>r. fst (validate_trends_data df) = Inr r \<and> \<not> valid r \<and> errors r \<noteq> []
           \<and> (\<forall>n. Inconsistent_products n \<notin> set (warnings r))"
proof -
  obtain w e where t: "run_try Validation_exception (trends_body df) = (w, e)"
    by (metis prod.exhaust)
  have "leaves_error (trends_body df)"
    unfolding trends_body_def check_products_consistency_inconsistent[OF assms]
    by (intro leaves_error_seq leaves_error_error_if)
  from run_try_leaves_error[OF this, of Validation_exception] t have e: "e \<noteq> []" by simp
  have "keeps_warnings (\<lambda>m. \<forall>n. m \<noteq> Inconsistent_products n) (trends_body df)"
    by (rule trends_body_keeps) simp_all
  from run_try_warnings[OF this, of Validation_exception] t
  have "list_all (\<lambda>m. \<forall>n. m \<noteq> Inconsistent_products n) w" by simp
  then have w: "\<forall>n. Inconsistent_products n \<notin> set w"
    by (auto simp: list_all_iff)
  show ?thesis using e w by (simp add: validate_trends_data_def t)
qed

lemma trends_inconsistent_recorded:
  assumes "cols df Tovary = Some (NumCol ps)" "cols df Tovary_s_prodazhami = Some (NumCol ws)"
    "0 < count_greater ws ps"
    and m: "cols df Mesyats = None \<or> (\<exists>ds. cols df Mesyats = Some (DateCol ds))"
    and n: "\<forall>c \<in> {Prodazhi, Vyruchka, Brendy}. cols df c = None \<or> (\<exists>xs. cols df c = Some (NumCol xs))"
  shows "\<exists>r. fst (validate_trends_data df) = Inr r
           \<and> Inconsistent_products (count_greater ws ps) \<in> set (errors r)"
proof -
  obtain w e where t: "run_try Validation_exception (trends_body df) = (w, e)"
    by (metis prod.exhaust)
  have mm: "never_raises (when_present df Mesyats check_month)"
    using m by (auto intro!: when_present_never_raises check_month_never_raises)
  have "records (Inconsistent_products (count_greater ws ps)) (trends_body df)"
    unfolding trends_body_def check_products_consistency_inconsistent[OF assms(1-3)]
      check_required_def
    using n assms(1)
    by (intro records_seq records_error_if never_raises_error_if mm
          check_numeric_column_never_raises) auto
  from run_try_records[OF this, of Validation_exception] t
  show ?thesis by (simp add: validate_trends_data_def)
qed

lemma price_inconsistent_invalid:
  assumes "cols df Tovary = Some (NumCol ps)" "cols df Tovary_s_prodazhami = Some (NumCol ws)"
    "0 < count_greater ws ps" and r: "fst (validate_price_data df) = Inr r"
  shows "\<not> valid r \<and> errors r \<noteq> [] \<and> (\<forall>n. Inconsistent_segments n \<notin> set (warnings r))"
proof (cases "missing_cols df price_required = []")
  case False
  with r show ?thesis by (auto simp: validate_price_data_def)
next
  case True
  obtain w e where t: "run_try Validation_exception (price_body df) = (w, e)"
    by (metis prod.exhaust)
  have "leaves_error (price_body df)"
    unfolding price_body_def check_segments_consistency_inconsistent[OF assms(1-3)]
    by (intro leaves_error_seq leaves_error_error_if)
  from run_try_leaves_error[OF this, of Validation_exception] t have e: "e \<noteq> []" by simp
  have "keeps_warnings (\<lambda>m. \<forall>n. m \<noteq> Inconsistent_segments n) (price_body df)"
    by (rule price_body_keeps) simp_all
  from run_try_warnings[OF this, of Validation_exception] t
  have "list_all (\<lambda>m. \<forall>n. m \<noteq> Inconsistent_segments n) w" by simp
  then have w: "\<forall>n. Inconsistent_segments n \<notin> set w"
    by (auto simp: list_all_iff)
  from r True t e w show ?thesis
    by (auto simp: validate_price_data_def split: sum.splits if_splits)
qed

lemma price_inconsistent_recorded:
  assumes "cols df Tovary = Some (NumCol ps)" "cols df Tovary_s_prodazhami = Some (NumCol ws)"
    "0 < count_greater ws ps"
    and c: "cols df Ot = Some (NumCol fs)" "cols df Do = Some (NumCol ts)"
      "cols df Vyruchka_na_tovar = Some (NumCol rs)"
  shows "\<exists>r. fst (validate_price_data df) = Inr r
           \<and> Inconsistent_segments (count_greater ws ps) \<in> set (errors r)"
proof -
  obtain w e where t: "run_try Validation_exception (price_body df) = (w, e)"
    by (metis prod.exhaust)
  have "records (Inconsistent_segments (count_greater ws ps)) (price_body df)"
    unfolding price_body_def check_segments_consistency_inconsistent[OF assms(1-3)]
    using c
    by (intro records_seq records_error_if)
       (simp_all add: when_present_def check_ranges_never_raises check_revenue_never_raises)
  from run_try_records[OF this, of Validation_exception] t
  have "Inconsistent_segments (count_greater ws ps) \<in> set e" by simp
  with c t show ?thesis
    by (simp add: validate_price_data_def missing_cols_def price_required_def getcol_def
          andthen_def)
qed


text \<open>The validator on a price report whose range columns hold text: the ranges are
  compared as strings, and the report is classified.\<close>

lemma price_text_validation:
  "fst (validate_price_data price_text) =
     Inr \<lparr>valid = False, warnings = [Overlapping_ranges 1, Zero_revenue 1],
          errors = [Invalid_ranges 1], records_count = 2,
          extra = Price_range (Some (Some (Str ''a''), Some (Str ''d'')))\<rparr>"
proof -
  have m: "missing_cols price_text price_required = []"
    by (simp add: missing_cols_def price_required_def price_text_def)
  have r: "check_ranges (ObjCol [Some ''a'', Some ''c'']) (ObjCol [Some ''d'', Some ''b'']) ([], [])
             = (None, ([Overlapping_ranges 1], [Invalid_ranges 1]))"
    by (simp add: check_ranges_def isna_sum_def count_where_def notna_both_def select_def
          check_valid_rows_def sort_by_from_def gt_by_def ge_by_def seq_def error_if_def
          warn_if_def Let_def)
  have v: "check_revenue (NumCol [Some 5, Some 0]) ([Overlapping_ranges 1], [Invalid_ranges 1])
             = (None, ([Overlapping_ranges 1, Zero_revenue 1], [Invalid_ranges 1]))"
    by (simp add: check_revenue_def count_where_def feq_def flt_def on_numeric_def seq_def
          error_if_def warn_if_def)
  have b: "price_body price_text ([], []) =
             (None, ([Overlapping_ranges 1, Zero_revenue 1], [Invalid_ranges 1]))"
    using r v
    by (simp add: price_body_def check_segments_consistency_def when_present_def
          price_text_def seq_def skip_def)
  show ?thesis
    by (simp add: validate_price_data_def m run_try_def b)
       (simp add: price_text_def getcol_def andthen_def present_def maximum_by_def
          minimum_by_def)
qed

text \<open>
  Claim C7, as stated, fails. On a price report with both product columns, a row whose
  products with sales exceed its products, and no column of revenue per product, the
  validator returns at once with the missing-column error: the inconsistency is recorded
  neither in the errors nor in the warnings.
\<close>

theorem price_inconsistency_not_recorded_counterexample:
  "cols price_no_revenue Tovary = Some (NumCol [Some 10, Some 20])
   \<and> cols price_no_revenue Tovary_s_prodazhami = Some (NumCol [Some 3, Some 25])
   \<and> count_greater [Some 3, Some 25] [Some 10, Some 20] = 1
   \<and> fst (validate_price_data price_no_revenue) =
       Inr \<lparr>valid = False, warnings = [], errors = [Missing_columns [Vyruchka_na_tovar]],
            records_count = 2, extra = No_info\<rparr>"
  by (simp add: price_no_revenue_def count_greater_def count_where_def fgt2_def fgt_def
        validate_price_data_def missing_cols_def price_required_def)

text \<open>
  Claim C7, amended. For a trends or price report whose two product columns are float
  columns and have a row with more products with sales than products, the validator (when
  it returns) classifies the report invalid with a non-empty error list, and the
  inconsistency is never among the warnings. The inconsistency itself, with its count, is
  in the error list whenever the check is reached: for a trends report whose month column
  is absent or a datetime column and whose sales, revenue and brands columns are absent
  or float columns; for a price report that has its three required columns as float
  columns.
\<close>

theorem inconsistency_makes_report_invalid:
  "(cols df Tovary = Some (NumCol ps) \<and> cols df Tovary_s_prodazhami = Some (NumCol ws)
      \<and> 0 < count_greater ws ps \<longrightarrow>
      (\<exists>r. fst (validate_trends_data df) = Inr r \<and> \<not> valid r \<and> errors r \<noteq> []
         \<and> (\<forall>n. Inconsistent_products n \<notin> set (warnings r))
         \<and> ((cols df Mesyats = None \<or> (\<exists>ds. cols df Mesyats = Some (DateCol ds)))
              \<and> (\<forall>c \<in> {Prodazhi, Vyruchka, Brendy}.
                    cols df c = None \<or> (\<exists>xs. cols df c = Some (NumCol xs)))
             \<longrightarrow> Inconsistent_products (count_greater ws ps) \<in> set (errors r))))
   \<and> (cols pf Tovary = Some (NumCol qs) \<and> cols pf Tovary_s_prodazhami = Some (NumCol vs)
      \<and> 0 < count_greater vs qs \<longrightarrow>
      (\<forall>r. fst (validate_price_data pf) = Inr r \<longrightarrow>
           \<not> valid r \<and> errors r \<noteq> [] \<and> (\<forall>n. Inconsistent_segments n \<notin> set (warnings r)))
      \<and> (cols pf Ot = Some (NumCol fs) \<and> cols pf Do = Some (NumCol ts)
           \<and> cols pf Vyruchka_na_tovar = Some (NumCol rs) \<longrightarrow>
           (\<exists>r. fst (validate_price_data pf) = Inr r
              \<and> Inconsistent_segments (count_greater vs qs) \<in> set (errors r))))"
proof (rule conjI; rule impI)
  assume h: "cols df Tovary = Some (NumCol ps) \<and> cols df Tovary_s_prodazhami = Some (NumCol ws)
      \<and> 0 < count_greater ws ps"
  then obtain r where r: "fst (validate_trends_data df) = Inr r" "\<not> valid r" "errors r \<noteq> []"
      "\<forall>n. Inconsistent_products n \<notin> set (warnings r)"
    using trends_inconsistent_invalid[of df ps ws] by blast
  have i: "(cols df Mesyats = None \<or> (\<exists>ds. cols df Mesyats = Some (DateCol ds)))
              \<and> (\<forall>c \<in> {Prodazhi, Vyruchka, Brendy}.
                    cols df c = None \<or> (\<exists>xs. cols df c = Some (NumCol xs)))
             \<longrightarrow> Inconsistent_products (count_greater ws ps) \<in> set (errors r)"
    using trends_inconsistent_recorded[of df ps ws] h r(1) by auto
  show "\<exists>r. fst (validate_trends_data df) = Inr r \<and> \<not> valid r \<and> errors r \<noteq> []
         \<and> (\<forall>n. Inconsistent_products n \<notin> set (warnings r))
         \<and> ((cols df Mesyats = None \<or> (\<exists>ds. cols df Mesyats = Some (DateCol ds)))
              \<and> (\<forall>c \<in> {Prodazhi, Vyruchka, Brendy}.
                    cols df c = None \<or> (\<exists>xs. cols df c = Some (NumCol xs)))
             \<longrightarrow> Inconsistent_products (count_greater ws ps) \<in> set (errors r))"
    using r i by (intro exI[of _ r]) simp
next
  assume h: "cols pf Tovary = Some (NumCol qs) \<and> cols pf Tovary_s_prodazhami = Some (NumCol vs)
      \<and> 0 < count_greater vs qs"
  have a: "\<forall>r. fst (validate_price_data pf) = Inr r \<longrightarrow>
           \<not> valid r \<and> errors r \<noteq> [] \<and> (\<forall>n. Inconsistent_segments n \<notin> set (warnings r))"
  proof (intro allI impI)
    fix r assume "fst (validate_price_data pf) = Inr r"
    with h show "\<not> valid r \<and> errors r \<noteq> [] \<and> (\<forall>n. Inconsistent_segments n \<notin> set (warnings r))"
      using price_inconsistent_invalid[of pf qs vs r] by simp
  qed
  have b: "cols pf Ot = Some (NumCol fs) \<and> cols pf Do = Some (NumCol ts)
           \<and> cols pf Vyruchka_na_tovar = Some (NumCol rs) \<longrightarrow>
           (\<exists>r. fst (validate_price_data pf) = Inr r
              \<and> Inconsistent_segments (count_greater vs qs) \<in> set (errors r))"
  proof
    assume "cols pf Ot = Some (NumCol fs) \<and> cols pf Do = Some (NumCol ts)
           \<and> cols pf Vyruchka_na_tovar = Some (NumCol rs)"
    with h show "\<exists>r. fst (validate_price_data pf) = Inr r
              \<and> Inconsistent_segments (count_greater vs qs) \<in> set (errors r)"
      using price_inconsistent_recorded[of pf qs vs fs ts rs] by simp
  qed
  from a b show "(\<forall>r. fst (validate_price_data pf) = Inr r \<longrightarrow>
           \<not> valid r \<and> errors r \<noteq> [] \<and> (\<forall>n. Inconsistent_segments n \<notin> set (warnings r)))
      \<and> (cols pf Ot = Some (NumCol fs) \<and> cols pf Do = Some (NumCol ts)
           \<and> cols pf Vyruchka_na_tovar = Some (NumCol rs) \<longrightarrow>
           (\<exists>r. fst (validate_price_data pf) = Inr r
              \<and> Inconsistent_segments (count_greater vs qs) \<in> set (errors r)))"
    by simp
qed

theorem inconsistency_makes_report_invalid_witness:
  "(\<exists>r. fst (validate_trends_data trends_example) = Inr r \<and> \<not> valid r
        \<and> Inconsistent_products 1 \<in> set (errors r))
   \<and> (\<exists>r. fst (validate_price_data price_example) = Inr r \<and> \<not> valid r
        \<and> Inconsistent_segments 1 \<in> set (errors r))"
proof -
  have t: "cols trends_example Tovary = Some (NumCol [Some 10, Some 20])
      \<and> cols trends_example Tovary_s_prodazhami = Some (NumCol [Some 15, Some 5])
      \<and> 0 < count_greater [Some 15, Some 5] [Some 10, Some 20]"
    by (simp add: trends_example_def count_greater_def count_where_def fgt2_def fgt_def)
  have tw: "(cols trends_example Mesyats = None
               \<or> (\<exists>ds. cols trends_example Mesyats = Some (DateCol ds)))
            \<and> (\<forall>c \<in> {Prodazhi, Vyruchka, Brendy}.
                  cols trends_example c = None \<or> (\<exists>xs. cols trends_example c = Some (NumCol xs)))"
    by (simp add: trends_example_def)
  have tc: "count_greater [Some 15, Some 5] [Some 10, Some 20] = 1"
    by (simp add: count_greater_def count_where_def fgt2_def fgt_def)
  have p: "cols price_example Tovary = Some (NumCol [Some 10, Some 20])
      \<and> cols price_example Tovary_s_prodazhami = Some (NumCol [Some 3, Some 25])
      \<and> 0 < count_greater [Some 3, Some 25] [Some 10, Some 20]"
    by (simp add: price_example_def count_greater_def count_where_def fgt2_def fgt_def)
  have pw: "cols price_example Ot = Some (NumCol [Some 0, Some 100])
      \<and> cols price_example Do = Some (NumCol [Some 100, Some 200])
      \<and> cols price_example Vyruchka_na_tovar = Some (NumCol [Some 5, Some 7])"
    by (simp add: price_example_def)
  have pc: "count_greater [Some 3, Some 25] [Some 10, Some 20] = 1"
    by (simp add: count_greater_def count_where_def fgt2_def fgt_def)
  from inconsistency_makes_report_invalid[of trends_example "[Some 10, Some 20]"
      "[Some 15, Some 5]" price_example "[Some 10, Some 20]" "[Some 3, Some 25]"
      "[Some 0, Some 100]" "[Some 100, Some 200]" "[Some 5, Some 7]"] t tw p pw
  show ?thesis unfolding tc pc by blast
qed

lemma process_uploaded_files_stores:
  assumes "ld \<noteq> []" "fst (validate_all_data ld) = Inr vr"
  shows "process_uploaded_files ld st = st\<lparr>loaded_data := ld, validation_results := vr\<rparr>"
proof -
  obtain r ld' where v: "validate_all_data ld = (r, ld')" by (metis prod.exhaust)
  with validate_all_data_leaves[of ld] have "ld' = ld" by simp
  with assms v show ?thesis by (simp add: process_uploaded_files_def)
qed

lemma trends_example_validation:
  "validate_trends_data trends_example =
     (Inr \<lparr>valid = False, warnings = [],
           errors = [Missing_columns [Vyruchka, Prodavtsy, Prodavtsy_s_prodazhami,
                       Vyruchka_na_tovar], Inconsistent_products 1],
           records_count = 2,
           extra = Date_range (Some ((2024, 1, 1), (2024, 2, 1)))\<rparr>, trends_example)"
proof -
  have c: "cols trends_example Mesyats = Some (DateCol [Some (2024, 1, 1), Some (2024, 2, 1)])"
    "cols trends_example Prodazhi = Some (NumCol [Some 100, Some 200])"
    "cols trends_example Vyruchka = None"
    "cols trends_example Tovary = Some (NumCol [Some 10, Some 20])"
    "cols trends_example Tovary_s_prodazhami = Some (NumCol [Some 15, Some 5])"
    "cols trends_example Brendy = Some (NumCol [Some 4, Some 4])"
    "nrows trends_example = 2"
    by (simp_all add: trends_example_def)
  have m: "missing_cols trends_example trends_required =
             [Vyruchka, Prodavtsy, Prodavtsy_s_prodazhami, Vyruchka_na_tovar]"
    by (simp add: missing_cols_def trends_required_def trends_example_def)
  have o1: "toordinal (2024, 1, 1) = 739191" and o2: "toordinal (2024, 2, 1) = 739222"
    by (simp_all add: toordinal_def Let_def)
  have s1: "check_required trends_example trends_required ([], []) =
              (None, ([], [Missing_columns [Vyruchka, Prodavtsy, Prodavtsy_s_prodazhami,
                       Vyruchka_na_tovar]]))"
    by (simp add: check_required_def m error_if_def)
  have s2: "when_present trends_example Mesyats check_month st = (None, st)" for st
    by (cases st) (simp add: when_present_def c check_month_def seq_def warn_if_def isna_sum_def
          isna_all_def count_where_def present_def earliest_def latest_def o1 o2 Let_def)
  have s3: "check_numeric_column trends_example Prodazhi st = (None, st)"
    "check_numeric_column trends_example Vyruchka st = (None, st)"
    "check_numeric_column trends_example Tovary st = (None, st)"
    "check_numeric_column trends_example Brendy st = (None, st)" for st
    by (cases st; simp add: check_numeric_column_def when_present_def c on_numeric_def seq_def
          warn_if_def count_where_def flt_def feq_def skip_def)+
  have s4: "check_products_consistency trends_example (w, e) = (None, (w, e @ [Inconsistent_products 1]))"
    for w e
    by (simp add: check_products_consistency_def when_present_def c on_numeric_def error_if_def
          count_greater_def count_where_def fgt2_def fgt_def)
  have b: "trends_body trends_example ([], []) =
     (None, ([], [Missing_columns [Vyruchka, Prodavtsy, Prodavtsy_s_prodazhami,
                       Vyruchka_na_tovar], Inconsistent_products 1]))"
    by (simp add: trends_body_def seq_def s1 s2 s3 s4)
  have r: "get_date_range trends_example Mesyats = Some ((2024, 1, 1), (2024, 2, 1))"
    by (simp add: get_date_range_def c present_def earliest_def latest_def o1 o2)
  show ?thesis
    by (simp add: validate_trends_data_def run_try_def b r c)
qed

lemma trends_example_score: "fst (fst (calculate_trend_score trends_example)) = 2"
proof -
  let ?d = "setcol (setcol trends_example God (NumCol [Some 2024, Some 2024]))
            Mesyats_nomer (NumCol [Some 1, Some 2])"
  have y: "calculate_yoy_score ?d c = (2, Insufficient_data)"
    if t: "cols ?d c = Some (NumCol vs)" for c vs
  proof (rule yoy_single_year[of ?d "[Some 2024, Some 2024]" c vs "[]"])
    show "cols ?d God = Some (NumCol [Some 2024, Some 2024])"
      by (simp add: setcol_simps)
    show "length (group_keys [Some 2024, Some 2024]) < 2"
      by (simp add: group_keys_def present_def)
    show "cols ?d c = Some (NumCol vs) \<or> cols ?d c = Some (DateCol [])"
      using t by simp
  qed
  have ys: "calculate_yoy_score ?d Brendy_s_prodazhami = (2, Insufficient_data)"
    "calculate_yoy_score ?d Brendy = (2, Insufficient_data)"
    "calculate_yoy_score ?d Tovary_s_prodazhami = (2, Insufficient_data)"
    "calculate_yoy_score ?d Tovary = (2, Insufficient_data)"
    "calculate_yoy_score ?d Sredniy_chek = (2, Insufficient_data)"
    by (rule y, simp add: setcol_simps trends_example_def)+
  have pc: "cols ?d Brendy_s_prodazhami \<noteq> None" "cols ?d Brendy \<noteq> None"
    "cols ?d Tovary_s_prodazhami \<noteq> None" "cols ?d Tovary \<noteq> None"
    "cols ?d Sredniy_chek \<noteq> None"
    by (simp_all add: setcol_simps trends_example_def)
  show ?thesis
    by (simp add: calculate_trend_score_def trends_example_after trends_example_peak Let_def
          metrics_def pc ys int_mean_def)
qed

text \<open>
  Claim C5, as stated, fails. A trends report that the validator classifies invalid
  (missing columns, and a row with more products with sales than products) is stored by
  the uploader all the same, is handed to the scoring engine, and contributes its trend
  score 2 to the composite score.
\<close>

theorem invalid_report_is_scored_counterexample:
  "fst (validate_all_data [(''trends'', trends_example)]) =
     Inr [(''trends'', \<lparr>valid = False, warnings = [],
           errors = [Missing_columns [Vyruchka, Prodavtsy, Prodavtsy_s_prodazhami,
                       Vyruchka_na_tovar], Inconsistent_products 1],
           records_count = 2,
           extra = Date_range (Some ((2024, 1, 1), (2024, 2, 1)))\<rparr>)]
   \<and> map_option trend_score (scoring_results (score_session
         (process_uploaded_files [(''trends'', trends_example)] initial_session))) = Some 2
   \<and> map_option total_score (scoring_results (score_session
         (process_uploaded_files [(''trends'', trends_example)] initial_session))) = Some 2"
proof -
  have v: "fst (validate_all_data [(''trends'', trends_example)]) =
     Inr [(''trends'', \<lparr>valid = False, warnings = [],
           errors = [Missing_columns [Vyruchka, Prodavtsy, Prodavtsy_s_prodazhami,
                       Vyruchka_na_tovar], Inconsistent_products 1],
           records_count = 2,
           extra = Date_range (Some ((2024, 1, 1), (2024, 2, 1)))\<rparr>)]"
    by (simp add: validate_by_type_def trends_example_validation)
  have p: "loaded_data (process_uploaded_files [(''trends'', trends_example)] initial_session)
             = [(''trends'', trends_example)]"
    by (subst process_uploaded_files_stores[OF _ v]) simp_all
  have t: "trend_score (fst (calculate_total_score [(''trends'', trends_example)])) = 2"
    by (simp add: module_scores trends_example_score)
  have tt: "total_score (fst (calculate_total_score [(''trends'', trends_example)])) = 2"
    using t by (simp add: calculate_total_score_def case_prod_beta Let_def run_module_score
          run_module_store calculate_ads_score_zero split: option.splits)
  show ?thesis
    using v t tt by (simp add: score_session_def p calculate_scoring_def case_prod_beta)
qed


lemma process_uploaded_files_raises:
  "fst (validate_all_data ld) = Inl ex \<Longrightarrow> process_uploaded_files ld st = st"
  by (cases "validate_all_data ld") (simp add: process_uploaded_files_def)

text \<open>
  Claim C5, amended. Validation does not hold back scoring. When the validation of non-empty
  loaded data returns, whatever it classifies, the uploader stores the loaded data whole
  and the validation results beside them; scoring then runs on all the loaded data, and
  each module score is the score its module computes from its table (0 when the table is
  absent). Only when a validator raises is nothing stored.
\<close>

theorem scoring_ignores_validation:
  "(ld \<noteq> [] \<and> fst (validate_all_data ld) = Inr vr \<longrightarrow>
      loaded_data (process_uploaded_files ld st) = ld
      \<and> validation_results (process_uploaded_files ld st) = vr
      \<and> scoring_results (score_session (process_uploaded_files ld st))
          = Some (fst (calculate_total_score ld))
      \<and> trend_score (fst (calculate_total_score ld)) =
          (case map_of ld ''trends'' of None \<Rightarrow> 0
           | Some df \<Rightarrow> fst (fst (calculate_trend_score df)))
      \<and> query_score (fst (calculate_total_score ld)) =
          (case map_of ld ''queries'' of None \<Rightarrow> 0
           | Some df \<Rightarrow> fst (fst (calculate_query_score df)))
      \<and> price_score (fst (calculate_total_score ld)) =
          (case map_of ld ''price'' of None \<Rightarrow> 0
           | Some df \<Rightarrow> fst (fst (calculate_price_score df)))
      \<and> stock_score (fst (calculate_total_score ld)) =
          (case map_of ld ''days'' of None \<Rightarrow> 0
           | Some df \<Rightarrow> fst (fst (calculate_stock_score df)))
      \<and> ads_score (fst (calculate_total_score ld)) =
          (case map_of ld ''products'' of None \<Rightarrow> 0
           | Some df \<Rightarrow> fst (fst (calculate_ads_score df))))
   \<and> (fst (validate_all_data ld) = Inl ex \<longrightarrow> process_uploaded_files ld st = st)"
proof (rule conjI; rule impI)
  assume h: "ld \<noteq> [] \<and> fst (validate_all_data ld) = Inr vr"
  then have p: "process_uploaded_files ld st = st\<lparr>loaded_data := ld, validation_results := vr\<rparr>"
    using process_uploaded_files_stores[of ld vr st] by simp
  have s: "scoring_results (score_session (process_uploaded_files ld st))
          = Some (fst (calculate_total_score ld))"
    using h by (simp add: p score_session_def calculate_scoring_def case_prod_beta)
  show "loaded_data (process_uploaded_files ld st) = ld
      \<and> validation_results (process_uploaded_files ld st) = vr
      \<and> scoring_results (score_session (process_uploaded_files ld st))
          = Some (fst (calculate_total_score ld))
      \<and> trend_score (fst (calculate_total_score ld)) =
          (case map_of ld ''trends'' of None \<Rightarrow> 0
           | Some df \<Rightarrow> fst (fst (calculate_trend_score df)))
      \<and> query_score (fst (calculate_total_score ld)) =
          (case map_of ld ''queries'' of None \<Rightarrow> 0
           | Some df \<Rightarrow> fst (fst (calculate_query_score df)))
      \<and> price_score (fst (calculate_total_score ld)) =
          (case map_of ld ''price'' of None \<Rightarrow> 0
           | Some df \<Rightarrow> fst (fst (calculate_price_score df)))
      \<and> stock_score (fst (calculate_total_score ld)) =
          (case map_of ld ''days'' of None \<Rightarrow> 0
           | Some df \<Rightarrow> fst (fst (calculate_stock_score df)))
      \<and> ads_score (fst (calculate_total_score ld)) =
          (case map_of ld ''products'' of None \<Rightarrow> 0
           | Some df \<Rightarrow> fst (fst (calculate_ads_score df)))"
    using s by (simp add: p module_scores)
next
  assume "fst (validate_all_data ld) = Inl ex"
  then show "process_uploaded_files ld st = st"
    by (rule process_uploaded_files_raises)
qed

theorem scoring_ignores_validation_witness:
  "[(''trends'', trends_example)] \<noteq> []
   \<and> fst (validate_all_data [(''trends'', trends_example)]) =
     Inr [(''trends'', \<lparr>valid = False, warnings = [],
           errors = [Missing_columns [Vyruchka, Prodavtsy, Prodavtsy_s_prodazhami,
                       Vyruchka_na_tovar], Inconsistent_products 1],
           records_count = 2,
           extra = Date_range (Some ((2024, 1, 1), (2024, 2, 1)))\<rparr>)]
   \<and> scoring_results (score_session
         (process_uploaded_files [(''trends'', trends_example)] initial_session))
       = Some (fst (calculate_total_score [(''trends'', trends_example)]))
   \<and> trend_score (fst (calculate_total_score [(''trends'', trends_example)])) = 2"
proof -
  have v: "fst (validate_all_data [(''trends'', trends_example)]) =
     Inr [(''trends'', \<lparr>valid = False, warnings = [],
           errors = [Missing_columns [Vyruchka, Prodavtsy, Prodavtsy_s_prodazhami,
                       Vyruchka_na_tovar], Inconsistent_products 1],
           records_count = 2,
           extra = Date_range (Some ((2024, 1, 1), (2024, 2, 1)))\<rparr>)]"
    by (simp add: validate_by_type_def trends_example_validation)
  have n: "[(''trends'', trends_example)] \<noteq> []" by simp
  from scoring_ignores_validation[of "[(''trends'', trends_example)]" _ initial_session] v n
  show ?thesis by (simp add: trends_example_score)
qed

lemma detailed_analyses:
  "detailed_trends (fst (calculate_total_score ld)) =
     map_option (\<lambda>df. snd (fst (calculate_trend_score df))) (map_of ld ''trends'')"
  "detailed_queries (fst (calculate_total_score ld)) =
     map_option (\<lambda>df. snd (fst (calculate_query_score df))) (map_of ld ''queries'')"
  "detailed_price (fst (calculate_total_score ld)) =
     map_option (\<lambda>df. snd (fst (calculate_price_score df))) (map_of ld ''price'')"
  "detailed_stock (fst (calculate_total_score ld)) =
     map_option (\<lambda>df. snd (fst (calculate_stock_score df))) (map_of ld ''days'')"
  "detailed_ads (fst (calculate_total_score ld)) =
     map_option (\<lambda>df. snd (fst (calculate_ads_score df))) (map_of ld ''products'')"
  by (simp_all add: calculate_total_score_def case_prod_beta Let_def run_module_analysis
        run_module_store)

lemma bucket_scores_nonzero:
  "query_efficiency_score r \<noteq> 0" "price_count_score n \<noteq> 0" "stock_threshold_score cv zr \<noteq> 0"
  by (simp_all add: query_efficiency_score_def price_count_score_def stock_threshold_score_def)

lemma query_zero_iff_marker:
  "(fst (fst (calculate_query_score df)) = 0) = (q_error (snd (fst (calculate_query_score df))) \<noteq> None)"
  by (auto simp: calculate_query_score_def Let_def bucket_scores_nonzero
        split: option.splits sum.splits)

lemma query_missing_column:
  "cols df Koeffitsient = None \<Longrightarrow>
     fst (fst (calculate_query_score df)) = 0
     \<and> q_error (snd (fst (calculate_query_score df))) = Some Missing_column"
  by (simp add: calculate_query_score_def Let_def)

lemma price_zero_iff_marker:
  "(fst (fst (calculate_price_score df)) = 0) = (p_error (snd (fst (calculate_price_score df))) \<noteq> None)"
  by (auto simp: calculate_price_score_def Let_def price_initial_def bucket_scores_nonzero
        split: option.splits sum.splits prod.splits)

lemma price_missing_column:
  "cols df Vyruchka_na_tovar = None \<Longrightarrow>
     fst (fst (calculate_price_score df)) = 0
     \<and> p_error (snd (fst (calculate_price_score df))) = Some Missing_column"
  by (simp add: calculate_price_score_def)

lemma stock_zero_iff_marker:
  "(fst (fst (calculate_stock_score df)) = 0) = (s_error (snd (fst (calculate_stock_score df))) \<noteq> None)"
  by (auto simp: calculate_stock_score_def Let_def stock_initial_def bucket_scores_nonzero
        split: option.splits sum.splits prod.splits)

lemma stock_missing_column:
  "cols df Ostatok = None \<or> cols df Data = None \<Longrightarrow>
     fst (fst (calculate_stock_score df)) = 0
     \<and> s_error (snd (fst (calculate_stock_score df))) = Some Missing_column"
  by (auto simp: calculate_stock_score_def)


lemma trend_add_columns_form:
  assumes "trend_add_columns df = Inr df1"
  shows "\<exists>ds. df1 = setcol (setcol df God (dt_year ds)) Mesyats_nomer (dt_month ds)"
  using assms
  by (auto simp: trend_add_columns_def getcol_def andthen_def split: option.splits sum.splits)

lemma trend_add_columns_metrics:
  assumes "trend_add_columns df = Inr df1"
  shows "filter (\<lambda>(k, c). cols df1 c \<noteq> None) metrics
           = filter (\<lambda>(k, c). cols df c \<noteq> None) metrics"
proof -
  from trend_add_columns_form[OF assms] obtain ds where
    d: "df1 = setcol (setcol df God (dt_year ds)) Mesyats_nomer (dt_month ds)" by blast
  have "cols df1 c = cols df c" if "(k, c) \<in> set metrics" for k c
    using that by (auto simp: d setcol_simps metrics_def)
  then show ?thesis
    by (intro filter_cong) auto
qed

lemma trend_zero_iff:
  "(fst (fst (calculate_trend_score df)) = 0) =
     (t_error (snd (fst (calculate_trend_score df))) \<noteq> None
      \<or> (\<forall>(k, c) \<in> set metrics. cols df c = None))"
proof (cases "trend_add_columns df")
  case (Inl e)
  then show ?thesis by (simp add: calculate_trend_score_def trend_initial_def)
next
  case (Inr df1)
  show ?thesis
  proof (cases "peak_months df1")
    case (Inl e)
    then show ?thesis using Inr by (simp add: calculate_trend_score_def trend_initial_def)
  next
    case pm: (Inr pm)
    let ?found = "filter (\<lambda>(k, c). cols df c \<noteq> None) metrics"
    have f: "filter (\<lambda>(k, c). cols df1 c \<noteq> None) metrics = ?found"
      by (rule trend_add_columns_metrics[OF Inr])
    have e: "(?found = []) = (\<forall>(k, c) \<in> set metrics. cols df c = None)"
      by (auto simp: filter_empty_conv)
    show ?thesis
    proof (cases "?found = []")
      case True
      then show ?thesis using Inr pm e
        by (simp add: calculate_trend_score_def Let_def f del: not_None_eq)
    next
      case False
      have "1 \<le> int_mean (map (\<lambda>(k, r). fst r) (map (\<lambda>(k, c). (k, calculate_yoy_score df1 c)) ?found))"
        using int_mean_range[of "map (\<lambda>(k, r). fst r) (map (\<lambda>(k, c). (k, calculate_yoy_score df1 c)) ?found)"]
          False
        by (auto simp: calculate_yoy_score_bounds)
      then show ?thesis using Inr pm e False
        by (simp add: calculate_trend_score_def Let_def f del: not_None_eq)
    qed
  qed
qed

text \<open>
  Claim C3, as stated, fails. When a module's table is absent from the loaded data, its
  score is 0 and there is no analysis dict for the module at all, hence no marker in it;
  and a trends report with its date column and none of the five metric columns gets the
  trend score 0 with an analysis dict that carries no error entry.
\<close>

theorem zero_score_without_marker_counterexample:
  "trend_score (fst (calculate_total_score [])) = 0
   \<and> detailed_trends (fst (calculate_total_score [])) = None
   \<and> query_score (fst (calculate_total_score [])) = 0
   \<and> detailed_queries (fst (calculate_total_score [])) = None
   \<and> cols trends_no_metrics Brendy_s_prodazhami = None \<and> cols trends_no_metrics Brendy = None
   \<and> cols trends_no_metrics Tovary_s_prodazhami = None \<and> cols trends_no_metrics Tovary = None
   \<and> cols trends_no_metrics Sredniy_chek = None
   \<and> fst (calculate_trend_score trends_no_metrics) =
       (0, \<lparr>t_peak_months = [(2024, Some 1)], t_yoy_changes = [], t_score_breakdown = [],
            t_total_score = 0, t_error = None\<rparr>)"
proof -
  have a: "trend_add_columns trends_no_metrics =
     Inr (setcol (setcol trends_no_metrics God (NumCol [Some 2024])) Mesyats_nomer (NumCol [Some 1]))"
    by (simp add: trend_add_columns_def trends_no_metrics_def getcol_def andthen_def dt_year_def
        dt_month_def)
  have b: "peak_months (setcol (setcol trends_no_metrics God (NumCol [Some 2024]))
             Mesyats_nomer (NumCol [Some 1])) = Inr [(2024, Some 1)]"
    by (simp add: peak_months_def getcol_def andthen_def setcol_def trends_no_metrics_def
        unique_def present_def year_peak_def df_select_def feq_def
        select_def idxmax_def maximum_def Let_def)
  have c: "cols trends_no_metrics Brendy_s_prodazhami = None" "cols trends_no_metrics Brendy = None"
    "cols trends_no_metrics Tovary_s_prodazhami = None" "cols trends_no_metrics Tovary = None"
    "cols trends_no_metrics Sredniy_chek = None"
    by (simp_all add: trends_no_metrics_def)
  have t: "fst (calculate_trend_score trends_no_metrics) =
       (0, \<lparr>t_peak_months = [(2024, Some 1)], t_yoy_changes = [], t_score_breakdown = [],
            t_total_score = 0, t_error = None\<rparr>)"
    by (simp add: calculate_trend_score_def a b Let_def metrics_def setcol_simps c)
  show ?thesis
    using t c by (simp add: module_scores detailed_analyses)
qed


text \<open>
  Claim C3, amended. Every module score lies in 0 to 4. A module whose table is absent
  scores 0 and has no analysis dict. For the query, price and stock modules with their
  table present, the analysis dict exists, the score is 0 exactly when the dict carries an
  error marker and is at least 1 otherwise, and a missing required column (the demand/supply
  coefficient; the revenue per product; the stock or the date column) gives score 0 with
  the marker of a missing column. For the trend module with its table present, the score
  is 0 exactly when the dict carries an error marker or no metric column exists. For the
  ads module with its table present the analysis dict exists.
\<close>

theorem module_score_zero_and_markers:
  "r = fst (calculate_total_score ld) \<longrightarrow>
     (0 \<le> trend_score r \<and> trend_score r \<le> 4 \<and> 0 \<le> query_score r \<and> query_score r \<le> 4
        \<and> 0 \<le> price_score r \<and> price_score r \<le> 4 \<and> 0 \<le> stock_score r \<and> stock_score r \<le> 4
        \<and> 0 \<le> ads_score r \<and> ads_score r \<le> 4)
     \<and> (map_of ld ''trends'' = None \<longrightarrow> trend_score r = 0 \<and> detailed_trends r = None)
     \<and> (map_of ld ''queries'' = None \<longrightarrow> query_score r = 0 \<and> detailed_queries r = None)
     \<and> (map_of ld ''price'' = None \<longrightarrow> price_score r = 0 \<and> detailed_price r = None)
     \<and> (map_of ld ''days'' = None \<longrightarrow> stock_score r = 0 \<and> detailed_stock r = None)
     \<and> (map_of ld ''products'' = None \<longrightarrow> ads_score r = 0 \<and> detailed_ads r = None)
     \<and> (map_of ld ''queries'' = Some qf \<longrightarrow>
          (\<exists>a. detailed_queries r = Some a
             \<and> (query_score r = 0) = (q_error a \<noteq> None)
             \<and> (q_error a = None \<longrightarrow> 1 \<le> query_score r)
             \<and> (cols qf Koeffitsient = None \<longrightarrow>
                   query_score r = 0 \<and> q_error a = Some Missing_column)))
     \<and> (map_of ld ''price'' = Some pf \<longrightarrow>
          (\<exists>a. detailed_price r = Some a
             \<and> (price_score r = 0) = (p_error a \<noteq> None)
             \<and> (p_error a = None \<longrightarrow> 1 \<le> price_score r)
             \<and> (cols pf Vyruchka_na_tovar = None \<longrightarrow>
                   price_score r = 0 \<and> p_error a = Some Missing_column)))
     \<and> (map_of ld ''days'' = Some sf \<longrightarrow>
          (\<exists>a. detailed_stock r = Some a
             \<and> (stock_score r = 0) = (s_error a \<noteq> None)
             \<and> (s_error a = None \<longrightarrow> 1 \<le> stock_score r)
             \<and> (cols sf Ostatok = None \<or> cols sf Data = None \<longrightarrow>
                   stock_score r = 0 \<and> s_error a = Some Missing_column)))
     \<and> (map_of ld ''trends'' = Some tf \<longrightarrow>
          (\<exists>a. detailed_trends r = Some a
             \<and> (trend_score r = 0) =
                 (t_error a \<noteq> None \<or> (\<forall>(k, c) \<in> set metrics. cols tf c = None))))
     \<and> (map_of ld ''products'' = Some af \<longrightarrow> (\<exists>a. detailed_ads r = Some a))"
proof
  assume r: "r = fst (calculate_total_score ld)"
  have rng: "0 \<le> trend_score r \<and> trend_score r \<le> 4 \<and> 0 \<le> query_score r \<and> query_score r \<le> 4
        \<and> 0 \<le> price_score r \<and> price_score r \<le> 4 \<and> 0 \<le> stock_score r \<and> stock_score r \<le> 4
        \<and> 0 \<le> ads_score r \<and> ads_score r \<le> 4"
    using calculate_trend_score_range calculate_query_score_range calculate_price_score_range
      calculate_stock_score_range
    by (simp add: r module_scores calculate_ads_score_zero split: option.splits)
  have absent: "(map_of ld ''trends'' = None \<longrightarrow> trend_score r = 0 \<and> detailed_trends r = None)
     \<and> (map_of ld ''queries'' = None \<longrightarrow> query_score r = 0 \<and> detailed_queries r = None)
     \<and> (map_of ld ''price'' = None \<longrightarrow> price_score r = 0 \<and> detailed_price r = None)
     \<and> (map_of ld ''days'' = None \<longrightarrow> stock_score r = 0 \<and> detailed_stock r = None)
     \<and> (map_of ld ''products'' = None \<longrightarrow> ads_score r = 0 \<and> detailed_ads r = None)"
    by (simp add: r module_scores detailed_analyses)
  have q: "map_of ld ''queries'' = Some qf \<longrightarrow>
          (\<exists>a. detailed_queries r = Some a
             \<and> (query_score r = 0) = (q_error a \<noteq> None)
             \<and> (q_error a = None \<longrightarrow> 1 \<le> query_score r)
             \<and> (cols qf Koeffitsient = None \<longrightarrow>
                   query_score r = 0 \<and> q_error a = Some Missing_column))"
  proof
    assume m: "map_of ld ''queries'' = Some qf"
    have s: "query_score r = fst (fst (calculate_query_score qf))"
      and d: "detailed_queries r = Some (snd (fst (calculate_query_score qf)))"
      by (simp_all add: r module_scores detailed_analyses m)
    have z: "(query_score r = 0) = (q_error (snd (fst (calculate_query_score qf))) \<noteq> None)"
      unfolding s by (rule query_zero_iff_marker)
    have p: "q_error (snd (fst (calculate_query_score qf))) = None \<longrightarrow> 1 \<le> query_score r"
      using z rng by auto
    have c: "cols qf Koeffitsient = None \<longrightarrow>
               query_score r = 0 \<and> q_error (snd (fst (calculate_query_score qf))) = Some Missing_column"
      unfolding s using query_missing_column[of qf] by simp
    from d z p c show "\<exists>a. detailed_queries r = Some a
             \<and> (query_score r = 0) = (q_error a \<noteq> None)
             \<and> (q_error a = None \<longrightarrow> 1 \<le> query_score r)
             \<and> (cols qf Koeffitsient = None \<longrightarrow>
                   query_score r = 0 \<and> q_error a = Some Missing_column)"
      by (intro exI[of _ "snd (fst (calculate_query_score qf))"]) simp
  qed
  have pr: "map_of ld ''price'' = Some pf \<longrightarrow>
          (\<exists>a. detailed_price r = Some a
             \<and> (price_score r = 0) = (p_error a \<noteq> None)
             \<and> (p_error a = None \<longrightarrow> 1 \<le> price_score r)
             \<and> (cols pf Vyruchka_na_tovar = None \<longrightarrow>
                   price_score r = 0 \<and> p_error a = Some Missing_column))"
  proof
    assume m: "map_of ld ''price'' = Some pf"
    have s: "price_score r = fst (fst (calculate_price_score pf))"
      and d: "detailed_price r = Some (snd (fst (calculate_price_score pf)))"
      by (simp_all add: r module_scores detailed_analyses m)
    have z: "(price_score r = 0) = (p_error (snd (fst (calculate_price_score pf))) \<noteq> None)"
      unfolding s by (rule price_zero_iff_marker)
    have p: "p_error (snd (fst (calculate_price_score pf))) = None \<longrightarrow> 1 \<le> price_score r"
      using z rng by auto
    have c: "cols pf Vyruchka_na_tovar = None \<longrightarrow>
               price_score r = 0 \<and> p_error (snd (fst (calculate_price_score pf))) = Some Missing_column"
      unfolding s using price_missing_column[of pf] by simp
    from d z p c show "\<exists>a. detailed_price r = Some a
             \<and> (price_score r = 0) = (p_error a \<noteq> None)
             \<and> (p_error a = None \<longrightarrow> 1 \<le> price_score r)
             \<and> (cols pf Vyruchka_na_tovar = None \<longrightarrow>
                   price_score r = 0 \<and> p_error a = Some Missing_column)"
      by (intro exI[of _ "snd (fst (calculate_price_score pf))"]) simp
  qed
  have st: "map_of ld ''days'' = Some sf \<longrightarrow>
          (\<exists>a. detailed_stock r = Some a
             \<and> (stock_score r = 0) = (s_error a \<noteq> None)
             \<and> (s_error a = None \<longrightarrow> 1 \<le> stock_score r)
             \<and> (cols sf Ostatok = None \<or> cols sf Data = None \<longrightarrow>
                   stock_score r = 0 \<and> s_error a = Some Missing_column))"
  proof
    assume m: "map_of ld ''days'' = Some sf"
    have s: "stock_score r = fst (fst (calculate_stock_score sf))"
      and d: "detailed_stock r = Some (snd (fst (calculate_stock_score sf)))"
      by (simp_all add: r module_scores detailed_analyses m)
    have z: "(stock_score r = 0) = (s_error (snd (fst (calculate_stock_score sf))) \<noteq> None)"
      unfolding s by (rule stock_zero_iff_marker)
    have p: "s_error (snd (fst (calculate_stock_score sf))) = None \<longrightarrow> 1 \<le> stock_score r"
      using z rng by auto
    have c: "cols sf Ostatok = None \<or> cols sf Data = None \<longrightarrow>
               stock_score r = 0 \<and> s_error (snd (fst (calculate_stock_score sf))) = Some Missing_column"
      unfolding s using stock_missing_column[of sf] by simp
    from d z p c show "\<exists>a. detailed_stock r = Some a
             \<and> (stock_score r = 0) = (s_error a \<noteq> None)
             \<and> (s_error a = None \<longrightarrow> 1 \<le> stock_score r)
             \<and> (cols sf Ostatok = None \<or> cols sf Data = None \<longrightarrow>
                   stock_score r = 0 \<and> s_error a = Some Missing_column)"
      by (intro exI[of _ "snd (fst (calculate_stock_score sf))"]) simp
  qed
  have t: "map_of ld ''trends'' = Some tf \<longrightarrow>
          (\<exists>a. detailed_trends r = Some a
             \<and> (trend_score r = 0) =
                 (t_error a \<noteq> None \<or> (\<forall>(k, c) \<in> set metrics. cols tf c = None)))"
  proof
    assume m: "map_of ld ''trends'' = Some tf"
    have s: "trend_score r = fst (fst (calculate_trend_score tf))"
      and d: "detailed_trends r = Some (snd (fst (calculate_trend_score tf)))"
      by (simp_all add: r module_scores detailed_analyses m)
    have z: "(trend_score r = 0) =
        (t_error (snd (fst (calculate_trend_score tf))) \<noteq> None
         \<or> (\<forall>(k, c) \<in> set metrics. cols tf c = None))"
      unfolding s by (rule trend_zero_iff)
    from d z show "\<exists>a. detailed_trends r = Some a
             \<and> (trend_score r = 0) =
                 (t_error a \<noteq> None \<or> (\<forall>(k, c) \<in> set metrics. cols tf c = None))"
      by (intro exI[of _ "snd (fst (calculate_trend_score tf))"]) simp
  qed
  have a: "map_of ld ''products'' = Some af \<longrightarrow> (\<exists>a. detailed_ads r = Some a)"
    by (simp add: r detailed_analyses)
  from rng absent q pr st t a
  show "(0 \<le> trend_score r \<and> trend_score r \<le> 4 \<and> 0 \<le> query_score r \<and> query_score r \<le> 4
        \<and> 0 \<le> price_score r \<and> price_score r \<le> 4 \<and> 0 \<le> stock_score r \<and> stock_score r \<le> 4
        \<and> 0 \<le> ads_score r \<and> ads_score r \<le> 4)
     \<and> (map_of ld ''trends'' = None \<longrightarrow> trend_score r = 0 \<and> detailed_trends r = None)
     \<and> (map_of ld ''queries'' = None \<longrightarrow> query_score r = 0 \<and> detailed_queries r = None)
     \<and> (map_of ld ''price'' = None \<longrightarrow> price_score r = 0 \<and> detailed_price r = None)
     \<and> (map_of ld ''days'' = None \<longrightarrow> stock_score r = 0 \<and> detailed_stock r = None)
     \<and> (map_of ld ''products'' = None \<longrightarrow> ads_score r = 0 \<and> detailed_ads r = None)
     \<and> (map_of ld ''queries'' = Some qf \<longrightarrow>
          (\<exists>a. detailed_queries r = Some a
             \<and> (query_score r = 0) = (q_error a \<noteq> None)
             \<and> (q_error a = None \<longrightarrow> 1 \<le> query_score r)
             \<and> (cols qf Koeffitsient = None \<longrightarrow>
                   query_score r = 0 \<and> q_error a = Some Missing_column)))
     \<and> (map_of ld ''price'' = Some pf \<longrightarrow>
          (\<exists>a. detailed_price r = Some a
             \<and> (price_score r = 0) = (p_error a \<noteq> None)
             \<and> (p_error a = None \<longrightarrow> 1 \<le> price_score r)
             \<and> (cols pf Vyruchka_na_tovar = None \<longrightarrow>
                   price_score r = 0 \<and> p_error a = Some Missing_column)))
     \<and> (map_of ld ''days'' = Some sf \<longrightarrow>
          (\<exists>a. detailed_stock r = Some a
             \<and> (stock_score r = 0) = (s_error a \<noteq> None)
             \<and> (s_error a = None \<longrightarrow> 1 \<le> stock_score r)
             \<and> (cols sf Ostatok = None \<or> cols sf Data = None \<longrightarrow>
                   stock_score r = 0 \<and> s_error a = Some Missing_column)))
     \<and> (map_of ld ''trends'' = Some tf \<longrightarrow>
          (\<exists>a. detailed_trends r = Some a
             \<and> (trend_score r = 0) =
                 (t_error a \<noteq> None \<or> (\<forall>(k, c) \<in> set metrics. cols tf c = None))))
     \<and> (map_of ld ''products'' = Some af \<longrightarrow> (\<exists>a. detailed_ads r = Some a))"
    by (intro conjI) simp_all
qed


theorem module_score_zero_and_markers_witness:
  "map_of loaded_incomplete ''queries'' = Some queries_no_coefficient
   \<and> cols queries_no_coefficient Koeffitsient = None
   \<and> map_of loaded_incomplete ''trends'' = Some trends_no_metrics
   \<and> map_of loaded_incomplete ''price'' = None
   \<and> query_score (fst (calculate_total_score loaded_incomplete)) = 0
   \<and> (\<exists>a. detailed_queries (fst (calculate_total_score loaded_incomplete)) = Some a
          \<and> q_error a = Some Missing_column)
   \<and> price_score (fst (calculate_total_score loaded_incomplete)) = 0
   \<and> detailed_price (fst (calculate_total_score loaded_incomplete)) = None
   \<and> (\<exists>a. detailed_trends (fst (calculate_total_score loaded_incomplete)) = Some a)"
proof -
  have h: "map_of loaded_incomplete ''queries'' = Some queries_no_coefficient"
    "cols queries_no_coefficient Koeffitsient = None"
    "map_of loaded_incomplete ''trends'' = Some trends_no_metrics"
    "map_of loaded_incomplete ''price'' = None"
    by (simp_all add: loaded_incomplete_def queries_no_coefficient_def)
  note m = module_score_zero_and_markers[of "fst (calculate_total_score loaded_incomplete)"
      loaded_incomplete queries_no_coefficient price_example days_example trends_no_metrics
      products_example, THEN mp, OF refl]
  note bp = m[THEN conjunct2, THEN conjunct2, THEN conjunct2, THEN conjunct1, THEN mp, OF h(4)]
  note bq = m[THEN conjunct2, THEN conjunct2, THEN conjunct2, THEN conjunct2, THEN conjunct2,
      THEN conjunct2, THEN conjunct1, THEN mp, OF h(1)]
  note bt = m[THEN conjunct2, THEN conjunct2, THEN conjunct2, THEN conjunct2, THEN conjunct2,
      THEN conjunct2, THEN conjunct2, THEN conjunct2, THEN conjunct2, THEN conjunct1, THEN mp,
      OF h(3)]
  from bp have p: "price_score (fst (calculate_total_score loaded_incomplete)) = 0
      \<and> detailed_price (fst (calculate_total_score loaded_incomplete)) = None" .
  from bq h(2) have q: "query_score (fst (calculate_total_score loaded_incomplete)) = 0
      \<and> (\<exists>a. detailed_queries (fst (calculate_total_score loaded_incomplete)) = Some a
            \<and> q_error a = Some Missing_column)"
    by blast
  from bt have t: "\<exists>a. detailed_trends (fst (calculate_total_score loaded_incomplete)) = Some a"
    by blast
  from h p q t show ?thesis by simp
qed

end
